theory Spec2Isabelle
  imports Main
begin

section \<open>Strings\<close>

text \<open>
  JavaScript strings are modelled as HOL strings. The three characters of the sources
  that cannot be written inside a HOL string literal are named here: the double quote,
  the line feed, and the arrow U+2192 (kept as its three UTF-8 bytes).
\<close>

definition dquote :: string where
  "dquote = [CHR 0x22]"

definition newline :: string where
  "newline = [CHR 0x0A]"

definition arrow :: string where
  "arrow = [CHR 0xE2, CHR 0x86, CHR 0x92]"

text \<open>\<^verbatim>\<open>Array.prototype.join\<close> on strings.\<close>

fun join :: "string \<Rightarrow> string list \<Rightarrow> string" where
  "join sep [] = []"
| "join sep [x] = x"
| "join sep (x # y # ys) = x @ sep @ join sep (y # ys)"

text \<open>
  Truthiness of a value of type \<^verbatim>\<open>string | undefined\<close> (or \<^verbatim>\<open>string | null\<close>):
  \<^verbatim>\<open>undefined\<close>, \<^verbatim>\<open>null\<close> and the empty string are falsy, every other string
  is truthy.
\<close>

fun truthy :: "string option \<Rightarrow> bool" where
  "truthy None = False"
| "truthy (Some s) = (s \<noteq> [])"

section \<open>The rule records of the two variants\<close>

text \<open>
  \<^verbatim>\<open>type Watcher\<close> of watcher-store.ts and \<^verbatim>\<open>type Listener\<close> of listener-store.ts.
  An optional field is an \<open>option\<close>; \<open>None\<close> is \<^verbatim>\<open>undefined\<close>. The field
  \<^verbatim>\<open>id\<close> is called \<open>id'\<close>.
\<close>

record Watcher =
  id' :: string
  entityId :: string
  fromState :: "string option"
  toState :: "string option"
  message :: string
  oneShot :: bool
  createdAt :: string

record Listener =
  id' :: string
  entityId :: string
  fromState :: "string option"
  toState :: "string option"
  message :: string
  oneShot :: bool
  createdAt :: string

text \<open>The renaming of the record type: a listener read as a watcher, field by field.\<close>

definition as_Watcher :: "Listener \<Rightarrow> Watcher" where
  "as_Watcher l =
     \<lparr>Watcher.id' = Listener.id' l,
      Watcher.entityId = Listener.entityId l,
      Watcher.fromState = Listener.fromState l,
      Watcher.toState = Listener.toState l,
      Watcher.message = Listener.message l,
      Watcher.oneShot = Listener.oneShot l,
      Watcher.createdAt = Listener.createdAt l\<rparr>"

section \<open>Matching\<close>

text \<open>\<^verbatim>\<open>matchesWatcher\<close> (watcher-store.ts), one branch per early return.\<close>

definition matchesWatcher :: "Watcher \<Rightarrow> string \<Rightarrow> string \<Rightarrow> string \<Rightarrow> bool" where
  "matchesWatcher watcher entityId' oldState newState =
     (if Watcher.entityId watcher \<noteq> entityId' then False
      else if oldState = newState then False
      else if truthy (Watcher.fromState watcher)
               \<and> Watcher.fromState watcher \<noteq> Some oldState then False
      else if truthy (Watcher.toState watcher)
               \<and> Watcher.toState watcher \<noteq> Some newState then False
      else True)"

text \<open>\<^verbatim>\<open>matchesListener\<close> (listener-store.ts).\<close>

definition matchesListener :: "Listener \<Rightarrow> string \<Rightarrow> string \<Rightarrow> string \<Rightarrow> bool" where
  "matchesListener listener entityId' oldState newState =
     (if Listener.entityId listener \<noteq> entityId' then False
      else if oldState = newState then False
      else if truthy (Listener.fromState listener)
               \<and> Listener.fromState listener \<noteq> Some oldState then False
      else if truthy (Listener.toState listener)
               \<and> Listener.toState listener \<noteq> Some newState then False
      else True)"

text \<open>
  The matching predicate as the specification words it, on the three fields of a rule
  that it reads: the entity must be the rule's, the state must really change, and each
  of \<^verbatim>\<open>fromState\<close>, \<^verbatim>\<open>toState\<close> is unset or equal to the corresponding state.
\<close>

definition matches_stated ::
  "string \<Rightarrow> string option \<Rightarrow> string option \<Rightarrow> string \<Rightarrow> string \<Rightarrow> string \<Rightarrow> bool" where
  "matches_stated rEntity rFrom rTo entityId' oldState newState \<longleftrightarrow>
     rEntity = entityId' \<and> oldState \<noteq> newState
     \<and> (rFrom = None \<or> rFrom = Some oldState)
     \<and> (rTo = None \<or> rTo = Some newState)"

section \<open>Display formatting\<close>

text \<open>
  \<^verbatim>\<open>[...].filter(Boolean)\<close> on an array of \<^verbatim>\<open>string | null\<close>: the truthy entries.
\<close>

fun filter_Boolean :: "string option list \<Rightarrow> string list" where
  "filter_Boolean [] = []"
| "filter_Boolean (None # xs) = filter_Boolean xs"
| "filter_Boolean (Some s # xs) =
     (if s \<noteq> [] then s # filter_Boolean xs else filter_Boolean xs)"

text \<open>\<^verbatim>\<open>x ? f(x) : null\<close> for an optional string \<^verbatim>\<open>x\<close>.\<close>

fun if_truthy :: "string option \<Rightarrow> (string \<Rightarrow> string) \<Rightarrow> string option" where
  "if_truthy None f = None"
| "if_truthy (Some s) f = (if s \<noteq> [] then Some (f s) else None)"

text \<open>\<^verbatim>\<open>a || b\<close> on strings.\<close>

definition or_else :: "string \<Rightarrow> string \<Rightarrow> string" where
  "or_else a b = (if a \<noteq> [] then a else b)"

definition formatWatcher :: "Watcher \<Rightarrow> string" where
  "formatWatcher w =
     (let trigger = join ('' '' @ arrow @ '' '')
            (filter_Boolean
              [if_truthy (Watcher.fromState w) (\<lambda>s. ''from '' @ dquote @ s @ dquote),
               if_truthy (Watcher.toState w) (\<lambda>s. ''to '' @ dquote @ s @ dquote)]);
          triggerStr = or_else trigger ''any state change'';
          mode = (if Watcher.oneShot w then ''one-shot'' else ''recurring'')
      in ''['' @ Watcher.id' w @ ''] `'' @ Watcher.entityId w @ ''` '' @ triggerStr
         @ '' ('' @ mode @ '') '' @ arrow @ '' '' @ dquote @ Watcher.message w @ dquote)"

definition formatListener :: "Listener \<Rightarrow> string" where
  "formatListener l =
     (let trigger = join ('' '' @ arrow @ '' '')
            (filter_Boolean
              [if_truthy (Listener.fromState l) (\<lambda>s. ''from '' @ dquote @ s @ dquote),
               if_truthy (Listener.toState l) (\<lambda>s. ''to '' @ dquote @ s @ dquote)]);
          triggerStr = or_else trigger ''any state change'';
          mode = (if Listener.oneShot l then ''one-shot'' else ''recurring'')
      in ''['' @ Listener.id' l @ ''] `'' @ Listener.entityId l @ ''` '' @ triggerStr
         @ '' ('' @ mode @ '') '' @ arrow @ '' '' @ dquote @ Listener.message l @ dquote)"

section \<open>The file system and JSON, as far as the stores use them\<close>

text \<open>
  The text of a file is identified by what \<^verbatim>\<open>JSON.parse\<close> makes of it: it is
  rejected (\<open>Unparsable\<close>), or it encodes a JSON value, which is an array of rules
  (what the cast \<^verbatim>\<open>parsed as Watcher[]\<close> takes it for) or anything else. A path
  holds nothing, a directory, a file that cannot be read (no read permission; it has a
  text all the same), or a file that can be read. Writing fails at the paths in
  \<open>unwritable\<close> (no write permission on the file, or a directory above it that cannot be
  made). The \<open>journal\<close> records every completed \<^verbatim>\<open>fs.writeFile\<close>, oldest first.
\<close>

datatype error = ENOENT | EACCES | EISDIR | SyntaxError

datatype 'r json_value = NotArray | ArrayOf "'r list"

datatype 'r raw = Unparsable | Encodes "'r json_value"

datatype 'r node = Directory | Unreadable "'r raw" | File "'r raw"

record 'r fs =
  files :: "string \<Rightarrow> 'r node option"
  unwritable :: "string set"
  journal :: "(string \<times> 'r raw) list"

definition readFile :: "'r fs \<Rightarrow> string \<Rightarrow> error + 'r raw" where
  "readFile fs filePath =
     (case files fs filePath of
        None \<Rightarrow> Inl ENOENT
      | Some Directory \<Rightarrow> Inl EISDIR
      | Some (Unreadable raw) \<Rightarrow> Inl EACCES
      | Some (File raw) \<Rightarrow> Inr raw)"

definition JSON_parse :: "'r raw \<Rightarrow> error + 'r json_value" where
  "JSON_parse raw = (case raw of Unparsable \<Rightarrow> Inl SyntaxError | Encodes v \<Rightarrow> Inr v)"

text \<open>
  \<^verbatim>\<open>JSON.stringify(rules, null, 2) + "\n"\<close>: the text that encodes the array of the
  rules (\<^verbatim>\<open>JSON.parse\<close> reads back what \<^verbatim>\<open>JSON.stringify\<close> wrote: the fields of
  a rule are strings and a boolean, and an \<^verbatim>\<open>undefined\<close> field is left out).
\<close>

definition JSON_stringify :: "'r list \<Rightarrow> 'r raw" where
  "JSON_stringify rules = Encodes (ArrayOf rules)"

text \<open>
  \<^verbatim>\<open>fs.mkdir(path.dirname(filePath), {recursive: true})\<close> followed by
  \<^verbatim>\<open>fs.writeFile(filePath, text, "utf8")\<close>: either raises, or replaces the whole text of
  the file. Writing creates a missing file (readable), fails on a directory, and leaves
  the permissions of an existing file as they are: a file that could not be read before
  cannot be read afterwards.
\<close>

definition mkdir_writeFile :: "'r fs \<Rightarrow> string \<Rightarrow> 'r raw \<Rightarrow> error + 'r fs" where
  "mkdir_writeFile fs filePath text' =
     (if filePath \<in> unwritable fs then Inl EACCES
      else case files fs filePath of
        Some Directory \<Rightarrow> Inl EISDIR
      | Some (Unreadable raw) \<Rightarrow>
          Inr (fs\<lparr>files := (files fs)(filePath \<mapsto> Unreadable text'),
                   journal := journal fs @ [(filePath, text')]\<rparr>)
      | _ \<Rightarrow>
          Inr (fs\<lparr>files := (files fs)(filePath \<mapsto> File text'),
                   journal := journal fs @ [(filePath, text')]\<rparr>))"

text \<open>
  \<^verbatim>\<open>path.join\<close>: the non-empty segments joined by the separator (the normalisation
  of \<^verbatim>\<open>..\<close> and of repeated separators is left out).
\<close>

definition path_join :: "string list \<Rightarrow> string" where
  "path_join segments =
     (let joined = join ''/'' (filter (\<lambda>s. s \<noteq> []) segments)
      in if joined = [] then ''.'' else joined)"

section \<open>The watcher store\<close>

definition WATCHERS_FILE :: string where
  "WATCHERS_FILE = ''watchers.json''"

definition resolveWatchersPath :: "string \<Rightarrow> string" where
  "resolveWatchersPath stateDir = path_join [stateDir, ''plugins'', ''homeassistant'', WATCHERS_FILE]"

text \<open>
  \<^verbatim>\<open>loadWatchers\<close>: the body of the \<^verbatim>\<open>try\<close> block can raise (first definition); the
  \<^verbatim>\<open>catch\<close> turns every error into the empty array (second definition).
\<close>

definition loadWatchers_try :: "Watcher fs \<Rightarrow> string \<Rightarrow> error + Watcher list" where
  "loadWatchers_try fs stateDir =
     (let filePath = resolveWatchersPath stateDir in
      case readFile fs filePath of
        Inl e \<Rightarrow> Inl e
      | Inr raw \<Rightarrow>
          (case JSON_parse raw of
             Inl e \<Rightarrow> Inl e
           | Inr parsed \<Rightarrow>
               (case parsed of NotArray \<Rightarrow> Inr [] | ArrayOf watchers \<Rightarrow> Inr watchers)))"

definition loadWatchers :: "Watcher fs \<Rightarrow> string \<Rightarrow> error + Watcher list" where
  "loadWatchers fs stateDir =
     (case loadWatchers_try fs stateDir of Inl e \<Rightarrow> Inr [] | Inr watchers \<Rightarrow> Inr watchers)"

definition saveWatchers :: "Watcher fs \<Rightarrow> string \<Rightarrow> Watcher list \<Rightarrow> error + Watcher fs" where
  "saveWatchers fs stateDir watchers =
     (let filePath = resolveWatchersPath stateDir
      in mkdir_writeFile fs filePath (JSON_stringify watchers))"

text \<open>\<^verbatim>\<open>type WatcherInput = Omit<Watcher, "id" | "createdAt">\<close>\<close>

record WatcherInput =
  entityId :: string
  fromState :: "string option"
  toState :: "string option"
  message :: string
  oneShot :: bool

text \<open>
  \<^verbatim>\<open>addWatcher\<close>. The two values the platform supplies are parameters:
  \<open>uuid\<close> is what \<^verbatim>\<open>randomUUID()\<close> returns and \<open>now\<close> is what
  \<^verbatim>\<open>new Date().toISOString()\<close> returns. \<^verbatim>\<open>.slice(0, 8)\<close> is \<open>take 8\<close>.
\<close>

definition addWatcher ::
  "Watcher fs \<Rightarrow> string \<Rightarrow> WatcherInput \<Rightarrow> string \<Rightarrow> string \<Rightarrow> error + (Watcher \<times> Watcher fs)" where
  "addWatcher fs stateDir input uuid now =
     (case loadWatchers fs stateDir of
        Inl e \<Rightarrow> Inl e
      | Inr watchers \<Rightarrow>
          (let watcher =
                 \<lparr>Watcher.id' = take 8 uuid,
                  Watcher.entityId = WatcherInput.entityId input,
                  Watcher.fromState = WatcherInput.fromState input,
                  Watcher.toState = WatcherInput.toState input,
                  Watcher.message = WatcherInput.message input,
                  Watcher.oneShot = WatcherInput.oneShot input,
                  Watcher.createdAt = now\<rparr>
           in case saveWatchers fs stateDir (watchers @ [watcher]) of
                Inl e \<Rightarrow> Inl e
              | Inr fs' \<Rightarrow> Inr (watcher, fs')))"

text \<open>\<^verbatim>\<open>Array.prototype.findIndex\<close>: the first index where the test holds, or -1.\<close>

fun findIndex :: "('a \<Rightarrow> bool) \<Rightarrow> 'a list \<Rightarrow> int" where
  "findIndex P [] = - 1"
| "findIndex P (x # xs) =
     (if P x then 0 else (let i = findIndex P xs in if i < 0 then - 1 else i + 1))"

text \<open>\<^verbatim>\<open>xs.splice(idx, 1)\<close> for an index in range: the list without that element.\<close>

definition splice_one :: "int \<Rightarrow> 'a list \<Rightarrow> 'a list" where
  "splice_one idx xs = take (nat idx) xs @ drop (Suc (nat idx)) xs"

definition removeWatcher :: "Watcher fs \<Rightarrow> string \<Rightarrow> string \<Rightarrow> error + (bool \<times> Watcher fs)" where
  "removeWatcher fs stateDir ident =
     (case loadWatchers fs stateDir of
        Inl e \<Rightarrow> Inl e
      | Inr watchers \<Rightarrow>
          (let idx = findIndex (\<lambda>w. Watcher.id' w = ident) watchers in
           if idx < 0 then Inr (False, fs)
           else case saveWatchers fs stateDir (splice_one idx watchers) of
                  Inl e \<Rightarrow> Inl e
                | Inr fs' \<Rightarrow> Inr (True, fs')))"

section \<open>The listener store\<close>

definition LISTENERS_FILE :: string where
  "LISTENERS_FILE = ''listeners.json''"

definition resolveListenersPath :: "string \<Rightarrow> string" where
  "resolveListenersPath stateDir = path_join [stateDir, ''plugins'', ''homeassistant'', LISTENERS_FILE]"

definition loadListeners_try :: "Listener fs \<Rightarrow> string \<Rightarrow> error + Listener list" where
  "loadListeners_try fs stateDir =
     (let filePath = resolveListenersPath stateDir in
      case readFile fs filePath of
        Inl e \<Rightarrow> Inl e
      | Inr raw \<Rightarrow>
          (case JSON_parse raw of
             Inl e \<Rightarrow> Inl e
           | Inr parsed \<Rightarrow>
               (case parsed of NotArray \<Rightarrow> Inr [] | ArrayOf listeners \<Rightarrow> Inr listeners)))"

definition loadListeners :: "Listener fs \<Rightarrow> string \<Rightarrow> error + Listener list" where
  "loadListeners fs stateDir =
     (case loadListeners_try fs stateDir of Inl e \<Rightarrow> Inr [] | Inr listeners \<Rightarrow> Inr listeners)"

definition saveListeners :: "Listener fs \<Rightarrow> string \<Rightarrow> Listener list \<Rightarrow> error + Listener fs" where
  "saveListeners fs stateDir listeners =
     (let filePath = resolveListenersPath stateDir
      in mkdir_writeFile fs filePath (JSON_stringify listeners))"

text \<open>\<^verbatim>\<open>type ListenerInput = Omit<Listener, "id" | "createdAt">\<close>\<close>

record ListenerInput =
  entityId :: string
  fromState :: "string option"
  toState :: "string option"
  message :: string
  oneShot :: bool

definition addListener ::
  "Listener fs \<Rightarrow> string \<Rightarrow> ListenerInput \<Rightarrow> string \<Rightarrow> string \<Rightarrow> error + (Listener \<times> Listener fs)" where
  "addListener fs stateDir input uuid now =
     (case loadListeners fs stateDir of
        Inl e \<Rightarrow> Inl e
      | Inr listeners \<Rightarrow>
          (let listener =
                 \<lparr>Listener.id' = take 8 uuid,
                  Listener.entityId = ListenerInput.entityId input,
                  Listener.fromState = ListenerInput.fromState input,
                  Listener.toState = ListenerInput.toState input,
                  Listener.message = ListenerInput.message input,
                  Listener.oneShot = ListenerInput.oneShot input,
                  Listener.createdAt = now\<rparr>
           in case saveListeners fs stateDir (listeners @ [listener]) of
                Inl e \<Rightarrow> Inl e
              | Inr fs' \<Rightarrow> Inr (listener, fs')))"

definition removeListener :: "Listener fs \<Rightarrow> string \<Rightarrow> string \<Rightarrow> error + (bool \<times> Listener fs)" where
  "removeListener fs stateDir ident =
     (case loadListeners fs stateDir of
        Inl e \<Rightarrow> Inl e
      | Inr listeners \<Rightarrow>
          (let idx = findIndex (\<lambda>l. Listener.id' l = ident) listeners in
           if idx < 0 then Inr (False, fs)
           else case saveListeners fs stateDir (splice_one idx listeners) of
                  Inl e \<Rightarrow> Inl e
                | Inr fs' \<Rightarrow> Inr (True, fs')))"

section \<open>What a service does to the outside\<close>

text \<open>
  Every call that leaves the service is an effect: a line given to the logger, a call on
  the socket or on a timer, a delivery through the sink, and a promise that rejected
  with nobody awaiting it.
\<close>

datatype level = Info | Warn | Err

datatype outgoing = Auth string | Subscribe_events nat | Ping nat

datatype effect =
    Log level string
  | NewWebSocket string
  | WsSend outgoing
  | WsClose
  | SetTimeout nat
  | ClearTimeout
  | SetInterval nat
  | ClearInterval
  | EnqueueSystemEvent string string
  | Exec string nat
  | Unhandled error

text \<open>\<^verbatim>\<open>String(n)\<close> for a non-negative integer: its decimal digits.\<close>

fun String_of_nat :: "nat \<Rightarrow> string" where
  "String_of_nat n =
     (if n < 10 then [''0123456789'' ! n]
      else String_of_nat (n div 10) @ [''0123456789'' ! (n mod 10)])"

declare String_of_nat.simps [simp del]

section \<open>State-change events\<close>

record snapshot =
  state :: string
  attributes :: "string \<Rightarrow> string option"

record StateChangedData =
  entity_id :: string
  old_state :: "snapshot option"
  new_state :: "snapshot option"

record HAStateChangedEvent =
  event_type :: string
  data :: StateChangedData

section \<open>The handler of the session-injection variant\<close>

text \<open>
  \<^verbatim>\<open>WatcherServiceConfig\<close>. \<open>enqueueSystemEvent\<close> returns \<open>None\<close> when the call
  returns and \<open>Some err\<close> when it throws (\<open>err\<close> is \<^verbatim>\<open>String(err)\<close>); the logger
  is the \<open>Log\<close> effect.
\<close>

record WatcherServiceConfig =
  url :: string
  token :: string
  stateDir :: string
  enqueueSystemEvent :: "string \<Rightarrow> string \<Rightarrow> string option"
  resolveSessionKey :: "unit \<Rightarrow> string option"

text \<open>The body of \<^verbatim>\<open>for (const watcher of matched)\<close>, one round per matched watcher.\<close>

fun deliver_watchers ::
  "WatcherServiceConfig \<Rightarrow> string \<Rightarrow> string \<Rightarrow> string \<Rightarrow> string \<Rightarrow> string \<Rightarrow> Watcher list
     \<Rightarrow> effect list" where
  "deliver_watchers cfg sessionKey friendlyName entity oldStateStr newStateStr [] = []"
| "deliver_watchers cfg sessionKey friendlyName entity oldStateStr newStateStr (watcher # rest) =
     (let triggerText =
            ''[Home Assistant Event] '' @ friendlyName @ '' (`'' @ entity @ ''`) ''
            @ ''changed from '' @ dquote @ oldStateStr @ dquote @ '' to '' @ dquote @ newStateStr
            @ dquote @ ''.'' @ newline
            @ ''Watcher message: '' @ Watcher.message watcher
      in [Log Info (''[ha-watcher] triggered: '' @ entity @ '' '' @ oldStateStr @ arrow
                    @ newStateStr @ '' '' @ arrow @ '' '' @ dquote @ Watcher.message watcher @ dquote),
          EnqueueSystemEvent triggerText sessionKey]
         @ (case enqueueSystemEvent cfg triggerText sessionKey of
              None \<Rightarrow> []
            | Some err \<Rightarrow> [Log Err (''[ha-watcher] failed to enqueue system event: '' @ err)])
         @ deliver_watchers cfg sessionKey friendlyName entity oldStateStr newStateStr rest)"

text \<open>
  \<^verbatim>\<open>HAWatcherService.handleStateChanged\<close>. The result is what the handler did, the file
  system it leaves, and the error it rejected with, if any. \<open>firedOneShotIds\<close> is a
  \<^verbatim>\<open>Set\<close>: the list of its distinct members, \<^verbatim>\<open>size\<close> its length, \<^verbatim>\<open>has\<close> membership.
\<close>

definition handleStateChanged ::
  "WatcherServiceConfig \<Rightarrow> HAStateChangedEvent \<Rightarrow> Watcher fs
     \<Rightarrow> effect list \<times> Watcher fs \<times> error option" where
  "handleStateChanged cfg event fs =
     (case (old_state (data event), new_state (data event)) of
        (Some old, Some new) \<Rightarrow>
          (let entity = entity_id (data event);
               oldStateStr = state old;
               newStateStr = state new
           in if oldStateStr = newStateStr then ([], fs, None)
              else case loadWatchers fs (stateDir cfg) of
                Inl e \<Rightarrow> ([], fs, Some e)
              | Inr watchers \<Rightarrow>
                 (let matched = filter (\<lambda>w. matchesWatcher w entity oldStateStr newStateStr) watchers
                  in if length matched = 0 then ([], fs, None)
                     else case resolveSessionKey cfg () of
                       None \<Rightarrow>
                         ([Log Warn (''[ha-watcher] watcher matched for '' @ entity
                                     @ '' but no sessionKey available'')], fs, None)
                     | Some sessionKey \<Rightarrow>
                        if sessionKey = [] then
                          ([Log Warn (''[ha-watcher] watcher matched for '' @ entity
                                      @ '' but no sessionKey available'')], fs, None)
                        else
                         (let friendlyName =
                                (case attributes new ''friendly_name'' of
                                   Some n \<Rightarrow> n | None \<Rightarrow> entity);
                              delivered = deliver_watchers cfg sessionKey friendlyName entity
                                            oldStateStr newStateStr matched;
                              firedOneShotIds =
                                remdups (map Watcher.id' (filter Watcher.oneShot matched))
                          in if length firedOneShotIds > 0 then
                               (let remaining =
                                      filter (\<lambda>w. Watcher.id' w \<notin> set firedOneShotIds) watchers
                                in case saveWatchers fs (stateDir cfg) remaining of
                                     Inl e \<Rightarrow> (delivered, fs, Some e)
                                   | Inr fs' \<Rightarrow>
                                       (delivered
                                        @ [Log Info (''[ha-watcher] removed ''
                                             @ String_of_nat (length firedOneShotIds)
                                             @ '' one-shot watcher(s)'')], fs', None))
                             else (delivered, fs, None))))
      | _ \<Rightarrow> ([], fs, None))"

section \<open>The handler of the subprocess variant\<close>

text \<open>
  \<^verbatim>\<open>ListenerServiceConfig\<close>, and the one field of the platform the handler calls:
  \<open>exec cmd\<close> is \<open>None\<close> when \<^verbatim>\<open>child_process.exec\<close> spawns the command and
  \<open>Some err\<close> when it throws. What the callback of \<^verbatim>\<open>exec\<close> logs when the command
  ends comes after the handler and is not part of it.
\<close>

record ListenerServiceConfig =
  url :: string
  token :: string
  stateDir :: string

text \<open>
  \<^verbatim>\<open>triggerText.replace(/'/g, "'\''")\<close>: inside the double quotes \<^verbatim>\<open>\'\<close> is a quote,
  so every single quote becomes three single quotes.
\<close>

definition escape_quotes :: "string \<Rightarrow> string" where
  "escape_quotes text' =
     concat (map (\<lambda>c. if c = CHR 0x27 then [CHR 0x27, CHR 0x27, CHR 0x27] else [c]) text')"

fun deliver_listeners ::
  "(string \<Rightarrow> string option) \<Rightarrow> string \<Rightarrow> string \<Rightarrow> string \<Rightarrow> string \<Rightarrow> Listener list
     \<Rightarrow> effect list" where
  "deliver_listeners exec friendlyName entity oldStateStr newStateStr [] = []"
| "deliver_listeners exec friendlyName entity oldStateStr newStateStr (listener # rest) =
     (let triggerText =
            ''[Home Assistant Event] '' @ friendlyName @ '' (`'' @ entity @ ''`) ''
            @ ''changed from '' @ dquote @ oldStateStr @ dquote @ '' to '' @ dquote @ newStateStr
            @ dquote @ ''.'' @ newline
            @ ''Listener message: '' @ Listener.message listener;
          escapedMessage = escape_quotes triggerText;
          cmd = ''openclaw agent --agent main --message '' @ [CHR 0x27] @ escapedMessage
                @ [CHR 0x27]
      in [Log Info (''[ha-listener] triggered: '' @ entity @ '' '' @ oldStateStr @ arrow
                    @ newStateStr @ '' '' @ arrow @ '' '' @ dquote @ Listener.message listener
                    @ dquote),
          Exec cmd 120000]
         @ (case exec cmd of
              None \<Rightarrow> []
            | Some err \<Rightarrow> [Log Err (''[ha-listener] failed to exec openclaw agent: '' @ err)])
         @ deliver_listeners exec friendlyName entity oldStateStr newStateStr rest)"

text \<open>\<^verbatim>\<open>HAListenerService.handleStateChanged\<close>.\<close>

definition handleStateChanged_listener ::
  "ListenerServiceConfig \<Rightarrow> (string \<Rightarrow> string option) \<Rightarrow> HAStateChangedEvent \<Rightarrow> Listener fs
     \<Rightarrow> effect list \<times> Listener fs \<times> error option" where
  "handleStateChanged_listener cfg exec event fs =
     (case (old_state (data event), new_state (data event)) of
        (Some old, Some new) \<Rightarrow>
          (let entity = entity_id (data event);
               oldStateStr = state old;
               newStateStr = state new
           in if oldStateStr = newStateStr then ([], fs, None)
              else case loadListeners fs (ListenerServiceConfig.stateDir cfg) of
                Inl e \<Rightarrow> ([], fs, Some e)
              | Inr listeners \<Rightarrow>
                 (let matched =
                        filter (\<lambda>l. matchesListener l entity oldStateStr newStateStr) listeners
                  in if length matched = 0 then ([], fs, None)
                     else
                      (let friendlyName =
                             (case attributes new ''friendly_name'' of
                                Some n \<Rightarrow> n | None \<Rightarrow> entity);
                           delivered = deliver_listeners exec friendlyName entity
                                         oldStateStr newStateStr matched;
                           firedOneShotIds =
                             remdups (map Listener.id' (filter Listener.oneShot matched))
                       in if length firedOneShotIds > 0 then
                            (let remaining =
                                   filter (\<lambda>l. Listener.id' l \<notin> set firedOneShotIds) listeners
                             in case saveListeners fs (ListenerServiceConfig.stateDir cfg) remaining of
                                  Inl e \<Rightarrow> (delivered, fs, Some e)
                                | Inr fs' \<Rightarrow>
                                    (delivered
                                     @ [Log Info (''[ha-listener] removed ''
                                          @ String_of_nat (length firedOneShotIds)
                                          @ '' one-shot listener(s)'')], fs', None))
                          else (delivered, fs, None))))
      | _ \<Rightarrow> ([], fs, None))"

section \<open>The event session of the session-injection variant\<close>

text \<open>
  The fields of \<^verbatim>\<open>class HAWatcherService\<close>. \<open>ws\<close> is the socket, seen through its
  \<^verbatim>\<open>readyState\<close>; \<open>reconnectTimer\<close> holds the delay of the pending timeout;
  \<open>pingTimer\<close> tells whether the keepalive interval is set; \<open>effects\<close> is everything
  the service has done to the outside, oldest first. Times are in milliseconds.
\<close>

datatype readyState = CONNECTING | OPEN | CLOSING | CLOSED

record HAWatcherService =
  ws :: "readyState option"
  msgId :: nat
  reconnectTimer :: "nat option"
  pingTimer :: bool
  reconnectDelay :: nat
  stopped :: bool
  effects :: "effect list"

text \<open>The field initialisers of the class.\<close>

definition new_HAWatcherService :: HAWatcherService where
  "new_HAWatcherService =
     \<lparr>ws = None, msgId = 0, reconnectTimer = None, pingTimer = False,
      reconnectDelay = 1000, stopped = False, effects = []\<rparr>"

definition emit :: "effect \<Rightarrow> HAWatcherService \<Rightarrow> HAWatcherService" where
  "emit e s = s\<lparr>effects := effects s @ [e]\<rparr>"

text \<open>
  The messages of the server, after \<^verbatim>\<open>JSON.parse\<close>: the six of
  \<^verbatim>\<open>type HAWebSocketMessage\<close>, and any other value of \<^verbatim>\<open>type\<close>, for which the
  \<^verbatim>\<open>switch\<close> has no case.
\<close>

datatype HAWebSocketMessage =
    Auth_required string
  | Auth_ok string
  | Auth_invalid string
  | Result nat bool "(string \<times> string) option"
  | Event nat "HAStateChangedEvent option"
  | Pong nat
  | Other_type string

definition clearTimers :: "HAWatcherService \<Rightarrow> HAWatcherService" where
  "clearTimers s =
     (let s1 = (if reconnectTimer s \<noteq> None
                then emit ClearTimeout (s\<lparr>reconnectTimer := None\<rparr>) else s)
      in if pingTimer s1 then emit ClearInterval (s1\<lparr>pingTimer := False\<rparr>) else s1)"

text \<open>\<^verbatim>\<open>WebSocket.close()\<close>: a socket that is not closed yet starts closing.\<close>

definition ws_close :: "HAWatcherService \<Rightarrow> HAWatcherService" where
  "ws_close s =
     emit WsClose
       (s\<lparr>ws := (case ws s of Some CLOSED \<Rightarrow> Some CLOSED | Some _ \<Rightarrow> Some CLOSING
                  | None \<Rightarrow> None)\<rparr>)"

definition stop :: "HAWatcherService \<Rightarrow> HAWatcherService" where
  "stop s =
     (let s1 = clearTimers (s\<lparr>stopped := True\<rparr>)
      in case ws s1 of None \<Rightarrow> s1 | Some _ \<Rightarrow> (ws_close s1)\<lparr>ws := None\<rparr>)"

text \<open>\<^verbatim>\<open>Math.round(delay / 1000)\<close> on a non-negative integer.\<close>

definition round_div :: "nat \<Rightarrow> nat \<Rightarrow> nat" where
  "round_div a b = (2 * a + b) div (2 * b)"

definition scheduleReconnect :: "HAWatcherService \<Rightarrow> HAWatcherService" where
  "scheduleReconnect s =
     (if stopped s then s
      else
       (let delay = reconnectDelay s;
            s1 = s\<lparr>reconnectDelay := min (reconnectDelay s * 2) 30000\<rparr>;
            s2 = emit (Log Info (''[ha-watcher] reconnecting in ''
                                 @ String_of_nat (round_div delay 1000) @ ''s'')) s1
        in emit (SetTimeout delay) (s2\<lparr>reconnectTimer := Some delay\<rparr>)))"

text \<open>
  \<^verbatim>\<open>url.replace(/\/$/, "")\<close> and \<^verbatim>\<open>httpUrl.replace(/^http/, "ws")\<close>.
\<close>

definition strip_trailing_slash :: "string \<Rightarrow> string" where
  "strip_trailing_slash u = (if u \<noteq> [] \<and> last u = CHR ''/'' then butlast u else u)"

definition http_to_ws :: "string \<Rightarrow> string" where
  "http_to_ws u = (if take 4 u = ''http'' then ''ws'' @ drop 4 u else u)"

text \<open>
  \<^verbatim>\<open>connect\<close>. \<open>ctor\<close> is the outcome of \<^verbatim>\<open>new WebSocket(wsUrl)\<close>: \<open>None\<close> when
  the socket is constructed, \<open>Some err\<close> when the constructor throws; the effect
  \<open>NewWebSocket\<close> is the call of the constructor, whatever its outcome. The four
  handlers the method installs are the definitions that follow it.
\<close>

definition connect ::
  "WatcherServiceConfig \<Rightarrow> string option \<Rightarrow> HAWatcherService \<Rightarrow> HAWatcherService" where
  "connect cfg ctor s =
     (if stopped s then s
      else
       (let httpUrl = strip_trailing_slash (WatcherServiceConfig.url cfg);
            wsUrl = http_to_ws httpUrl @ ''/api/websocket'';
            s1 = emit (NewWebSocket wsUrl)
                   (emit (Log Info (''[ha-watcher] connecting to '' @ wsUrl)) s)
        in case ctor of
             Some err \<Rightarrow>
               scheduleReconnect
                 (emit (Log Err (''[ha-watcher] WebSocket constructor failed: '' @ err)) s1)
           | None \<Rightarrow> s1\<lparr>ws := Some CONNECTING\<rparr>))"

definition start ::
  "WatcherServiceConfig \<Rightarrow> string option \<Rightarrow> HAWatcherService \<Rightarrow> HAWatcherService" where
  "start cfg ctor s = connect cfg ctor (s\<lparr>stopped := False\<rparr>)"

definition onopen :: "HAWatcherService \<Rightarrow> HAWatcherService" where
  "onopen s = (emit (Log Info ''[ha-watcher] WebSocket connected'') s)\<lparr>reconnectDelay := 1000\<rparr>"

definition onclose :: "HAWatcherService \<Rightarrow> HAWatcherService" where
  "onclose s =
     scheduleReconnect
       ((clearTimers (emit (Log Info ''[ha-watcher] WebSocket closed'') s))\<lparr>ws := None\<rparr>)"

definition onerror :: "string \<Rightarrow> HAWatcherService \<Rightarrow> HAWatcherService" where
  "onerror event s = emit (Log Err (''[ha-watcher] WebSocket error: '' @ event)) s"

text \<open>The callback of the timeout set by \<^verbatim>\<open>scheduleReconnect\<close>.\<close>

definition reconnect_timeout ::
  "WatcherServiceConfig \<Rightarrow> string option \<Rightarrow> HAWatcherService \<Rightarrow> HAWatcherService" where
  "reconnect_timeout cfg ctor s = connect cfg ctor (s\<lparr>reconnectTimer := None, msgId := 0\<rparr>)"

definition send :: "outgoing \<Rightarrow> HAWatcherService \<Rightarrow> HAWatcherService" where
  "send msg s = (case ws s of Some OPEN \<Rightarrow> emit (WsSend msg) s | _ \<Rightarrow> s)"

definition subscribeEvents :: "HAWatcherService \<Rightarrow> HAWatcherService" where
  "subscribeEvents s =
     (let s1 = s\<lparr>msgId := msgId s + 1\<rparr>;
          s2 = send (Subscribe_events (msgId s1)) s1
      in emit (Log Info ''[ha-watcher] subscribed to state_changed events'') s2)"

definition startPing :: "HAWatcherService \<Rightarrow> HAWatcherService" where
  "startPing s = emit (SetInterval 30000) (s\<lparr>pingTimer := True\<rparr>)"

text \<open>The callback of the interval set by \<^verbatim>\<open>startPing\<close>.\<close>

definition ping_interval :: "HAWatcherService \<Rightarrow> HAWatcherService" where
  "ping_interval s = (let s1 = s\<lparr>msgId := msgId s + 1\<rparr> in send (Ping (msgId s1)) s1)"

text \<open>
  \<^verbatim>\<open>handleMessage\<close>, on the service and the file system. The handler of a state change
  runs to its end within the step; a rejection of it is not awaited by anybody.
\<close>

definition handleMessage ::
  "WatcherServiceConfig \<Rightarrow> HAWebSocketMessage \<Rightarrow> HAWatcherService \<times> Watcher fs
     \<Rightarrow> HAWatcherService \<times> Watcher fs" where
  "handleMessage cfg msg sf =
     (let s = fst sf; fs = snd sf in
      case msg of
        Auth_required v \<Rightarrow> (send (Auth (WatcherServiceConfig.token cfg)) s, fs)
      | Auth_ok v \<Rightarrow>
          (startPing (subscribeEvents
             (emit (Log Info (''[ha-watcher] authenticated (HA '' @ v @ '')'')) s)), fs)
      | Auth_invalid m \<Rightarrow>
          (let s1 = (emit (Log Err (''[ha-watcher] auth failed: '' @ m)) s)\<lparr>stopped := True\<rparr>
           in (case ws s1 of None \<Rightarrow> s1 | Some _ \<Rightarrow> ws_close s1, fs))
      | Result n success err \<Rightarrow>
          (case err of
             Some (code, m) \<Rightarrow>
               if \<not> success
               then (emit (Log Err (''[ha-watcher] command '' @ String_of_nat n
                                    @ '' failed: '' @ m)) s, fs)
               else (s, fs)
           | None \<Rightarrow> (s, fs))
      | Event n ev \<Rightarrow>
          (case ev of
             None \<Rightarrow> (s, fs)
           | Some e \<Rightarrow>
               if event_type e = ''state_changed'' then
                 (case handleStateChanged cfg e fs of
                    (did, fs', raised) \<Rightarrow>
                      (s\<lparr>effects := effects s @ did
                            @ (case raised of None \<Rightarrow> [] | Some x \<Rightarrow> [Unhandled x])\<rparr>, fs'))
               else (s, fs))
      | Pong n \<Rightarrow> (s, fs)
      | Other_type t \<Rightarrow> (s, fs))"

text \<open>
  \<^verbatim>\<open>ws.onmessage\<close>: the data is either rejected by \<^verbatim>\<open>JSON.parse\<close> (\<open>Inl\<close>, with the
  text of the error) or a message.
\<close>

definition onmessage ::
  "WatcherServiceConfig \<Rightarrow> string + HAWebSocketMessage \<Rightarrow> HAWatcherService \<times> Watcher fs
     \<Rightarrow> HAWatcherService \<times> Watcher fs" where
  "onmessage cfg received sf =
     (case received of
        Inl err \<Rightarrow> (emit (Log Err (''[ha-watcher] failed to parse message: '' @ err)) (fst sf), snd sf)
      | Inr msg \<Rightarrow> handleMessage cfg msg sf)"

text \<open>
  What can happen to a service: a call of \<^verbatim>\<open>start\<close> or \<^verbatim>\<open>stop\<close>, an event of the
  socket, or a timer that fires. The socket is open from its \<^verbatim>\<open>open\<close> event on; a
  timer fires only while it is set.
\<close>

datatype input =
    Start "string option"
  | Stop
  | Socket_open
  | Socket_message "string + HAWebSocketMessage"
  | Socket_error string
  | Socket_close
  | Reconnect_timeout "string option"
  | Ping_interval

definition step ::
  "WatcherServiceConfig \<Rightarrow> input \<Rightarrow> HAWatcherService \<times> Watcher fs
     \<Rightarrow> HAWatcherService \<times> Watcher fs" where
  "step cfg i sf =
     (let s = fst sf; fs = snd sf in
      case i of
        Start ctor \<Rightarrow> (start cfg ctor s, fs)
      | Stop \<Rightarrow> (stop s, fs)
      | Socket_open \<Rightarrow>
          (onopen (s\<lparr>ws := (case ws s of None \<Rightarrow> None | Some _ \<Rightarrow> Some OPEN)\<rparr>), fs)
      | Socket_message received \<Rightarrow> onmessage cfg received sf
      | Socket_error event \<Rightarrow> (onerror event s, fs)
      | Socket_close \<Rightarrow> (onclose s, fs)
      | Reconnect_timeout ctor \<Rightarrow>
          (if reconnectTimer s = None then s else reconnect_timeout cfg ctor s, fs)
      | Ping_interval \<Rightarrow> (if pingTimer s then ping_interval s else s, fs))"

fun run ::
  "WatcherServiceConfig \<Rightarrow> input list \<Rightarrow> HAWatcherService \<times> Watcher fs
     \<Rightarrow> HAWatcherService \<times> Watcher fs" where
  "run cfg [] sf = sf"
| "run cfg (i # is) sf = run cfg is (step cfg i sf)"

text \<open>The delays of the reconnects a service has scheduled, oldest first.\<close>

fun scheduled_delays :: "effect list \<Rightarrow> nat list" where
  "scheduled_delays [] = []"
| "scheduled_delays (SetTimeout d # es) = d # scheduled_delays es"
| "scheduled_delays (e # es) = scheduled_delays es"

text \<open>The connection attempts a service has made: the calls of the socket constructor.\<close>

fun connection_attempts :: "effect list \<Rightarrow> string list" where
  "connection_attempts [] = []"
| "connection_attempts (NewWebSocket u # es) = u # connection_attempts es"
| "connection_attempts (e # es) = connection_attempts es"

section \<open>Retirement as the specification words it\<close>

text \<open>
  "Exactly the matched rules with \<^verbatim>\<open>oneShot\<close> true are removed from the set loaded, and
  every other loaded rule is kept": the loaded rules without the matched one-shot ones.
\<close>


definition retire_stated :: "('r \<Rightarrow> bool) \<Rightarrow> ('r \<Rightarrow> bool) \<Rightarrow> 'r list \<Rightarrow> 'r list" where
  "retire_stated matched one_shot loaded = filter (\<lambda>r. \<not> (matched r \<and> one_shot r)) loaded"

section \<open>Store files that can be read back\<close>

text \<open>
  The path of a store holds nothing yet, or a file that can be read: not a directory, and
  not a file without read permission.
\<close>

definition readable_or_absent :: "'r fs \<Rightarrow> string \<Rightarrow> bool" where
  "readable_or_absent fs filePath \<longleftrightarrow>
     (case files fs filePath of None \<Rightarrow> True | Some (File raw) \<Rightarrow> True | Some other \<Rightarrow> False)"

section \<open>What the platform returns to \<^verbatim>\<open>add\<close>\<close>

text \<open>
  \<^verbatim>\<open>crypto.randomUUID()\<close> returns 36 characters: groups of 8, 4, 4, 4 and 12 lower-case
  hexadecimal digits, separated by hyphens. \<^verbatim>\<open>Date.prototype.toISOString()\<close> returns 24
  characters (27 for a year beyond 9999) that end with the letter Z.
\<close>

definition is_hex :: "char \<Rightarrow> bool" where
  "is_hex c \<longleftrightarrow> c \<in> set ''0123456789abcdef''"

definition is_UUID :: "string \<Rightarrow> bool" where
  "is_UUID u \<longleftrightarrow>
     length u = 36
     \<and> list_all is_hex (take 8 u) \<and> take 1 (drop 8 u) = ''-''
     \<and> list_all is_hex (take 4 (drop 9 u)) \<and> take 1 (drop 13 u) = ''-''
     \<and> list_all is_hex (take 4 (drop 14 u)) \<and> take 1 (drop 18 u) = ''-''
     \<and> list_all is_hex (take 4 (drop 19 u)) \<and> take 1 (drop 23 u) = ''-''
     \<and> list_all is_hex (drop 24 u)"

definition is_ISO_timestamp :: "string \<Rightarrow> bool" where
  "is_ISO_timestamp t \<longleftrightarrow> (length t = 24 \<or> length t = 27) \<and> last t = CHR ''Z''"

section \<open>Sequences of store operations\<close>

text \<open>
  The operations that change a store: \<^verbatim>\<open>add\<close> (with the UUID and the time the platform
  supplies), \<^verbatim>\<open>remove\<close>, and the handling of a state change, which retires one-shot
  rules. An operation that raises leaves the file system as it was.
\<close>

datatype watcher_op =
    Add_watcher WatcherInput string string
  | Remove_watcher string
  | Handle_watchers WatcherServiceConfig HAStateChangedEvent

fun apply_watcher_op :: "string \<Rightarrow> watcher_op \<Rightarrow> Watcher fs \<Rightarrow> Watcher fs" where
  "apply_watcher_op sd (Add_watcher input uuid now) fs =
     (case addWatcher fs sd input uuid now of Inl e \<Rightarrow> fs | Inr (w, fs') \<Rightarrow> fs')"
| "apply_watcher_op sd (Remove_watcher ident) fs =
     (case removeWatcher fs sd ident of Inl e \<Rightarrow> fs | Inr (b, fs') \<Rightarrow> fs')"
| "apply_watcher_op sd (Handle_watchers cfg ev) fs =
     fst (snd (handleStateChanged (cfg\<lparr>WatcherServiceConfig.stateDir := sd\<rparr>) ev fs))"

fun apply_watcher_ops :: "string \<Rightarrow> watcher_op list \<Rightarrow> Watcher fs \<Rightarrow> Watcher fs" where
  "apply_watcher_ops sd [] fs = fs"
| "apply_watcher_ops sd (x # xs) fs = apply_watcher_ops sd xs (apply_watcher_op sd x fs)"

datatype listener_op =
    Add_listener ListenerInput string string
  | Remove_listener string
  | Handle_listeners ListenerServiceConfig "string \<Rightarrow> string option" HAStateChangedEvent

fun apply_listener_op :: "string \<Rightarrow> listener_op \<Rightarrow> Listener fs \<Rightarrow> Listener fs" where
  "apply_listener_op sd (Add_listener input uuid now) fs =
     (case addListener fs sd input uuid now of Inl e \<Rightarrow> fs | Inr (l, fs') \<Rightarrow> fs')"
| "apply_listener_op sd (Remove_listener ident) fs =
     (case removeListener fs sd ident of Inl e \<Rightarrow> fs | Inr (b, fs') \<Rightarrow> fs')"
| "apply_listener_op sd (Handle_listeners cfg exec ev) fs =
     fst (snd (handleStateChanged_listener (cfg\<lparr>ListenerServiceConfig.stateDir := sd\<rparr>) exec ev fs))"

fun apply_listener_ops :: "string \<Rightarrow> listener_op list \<Rightarrow> Listener fs \<Rightarrow> Listener fs" where
  "apply_listener_ops sd [] fs = fs"
| "apply_listener_ops sd (x # xs) fs = apply_listener_ops sd xs (apply_listener_op sd x fs)"

section \<open>Runs of the session\<close>

text \<open>
  The backoff sequence as the specification words it: the delays are 1, 2, 4, 8, 16, 30,
  30, ... seconds, that is the delay number \<open>k\<close> (counted from 0) is the smaller of
  \<open>2 ^ k\<close> and 30 seconds. In milliseconds:
\<close>

definition backoff_stated :: "nat \<Rightarrow> nat" where
  "backoff_stated k = 1000 * min (2 ^ k) 30"

text \<open>
  A failed connection attempt: either the socket constructor throws (then \<^verbatim>\<open>connect\<close>
  has scheduled the reconnect already), or the socket is constructed and then fails and
  closes without ever opening. A run of consecutive failed attempts is \<^verbatim>\<open>start()\<close>
  failing, followed by the reconnect timer firing into one more failed attempt each time.
\<close>

fun after_failed_attempt :: "string option \<Rightarrow> input list" where
  "after_failed_attempt (Some err) = []"
| "after_failed_attempt None = [Socket_error ''[object Event]'', Socket_close]"

fun retries :: "string option list \<Rightarrow> input list" where
  "retries [] = []"
| "retries (c # cs) = Reconnect_timeout c # after_failed_attempt c @ retries cs"

definition failed_attempts :: "string option \<Rightarrow> string option list \<Rightarrow> input list" where
  "failed_attempts c cs = Start c # after_failed_attempt c @ retries cs"

text \<open>The delays scheduled since an earlier moment of the run.\<close>

definition newly_scheduled :: "HAWatcherService \<Rightarrow> HAWatcherService \<Rightarrow> nat list" where
  "newly_scheduled before after =
     drop (length (scheduled_delays (effects before))) (scheduled_delays (effects after))"

fun is_Start :: "input \<Rightarrow> bool" where
  "is_Start (Start ctor) = True"
| "is_Start i = False"

section \<open>Concrete rules, stores and events\<close>

text \<open>The inputs at which the properties below are evaluated.\<close>

definition rule_empty_from :: Watcher where
  "rule_empty_from =
     \<lparr>Watcher.id' = ''a1b2c3d4'', Watcher.entityId = ''light.bedroom'',
      Watcher.fromState = Some [], Watcher.toState = None,
      Watcher.message = ''commit git'', Watcher.oneShot = True,
      Watcher.createdAt = ''2026-01-01T00:00:00.000Z''\<rparr>"

definition rule_off_on :: Watcher where
  "rule_off_on =
     \<lparr>Watcher.id' = ''0f0e0d0c'', Watcher.entityId = ''light.bedroom'',
      Watcher.fromState = Some ''off'', Watcher.toState = Some ''on'',
      Watcher.message = ''commit git'', Watcher.oneShot = True,
      Watcher.createdAt = ''2026-01-01T00:00:00.000Z''\<rparr>"

definition listener_to_on :: Listener where
  "listener_to_on =
     \<lparr>Listener.id' = ''abc12345'', Listener.entityId = ''light.bedroom'',
      Listener.fromState = None, Listener.toState = Some ''on'',
      Listener.message = ''commit git'', Listener.oneShot = True,
      Listener.createdAt = ''2026-01-01T00:00:00.000Z''\<rparr>"

definition fs_watchers_not_array :: "Watcher fs" where
  "fs_watchers_not_array =
     \<lparr>files = (\<lambda>p. if p = ''/state/plugins/homeassistant/watchers.json''
                    then Some (File (Encodes NotArray)) else None),
      unwritable = {}, journal = []\<rparr>"

definition fs_listeners_unparsable :: "Listener fs" where
  "fs_listeners_unparsable =
     \<lparr>files = (\<lambda>p. if p = ''/state/plugins/homeassistant/listeners.json''
                    then Some (File Unparsable) else None),
      unwritable = {}, journal = []\<rparr>"

definition watcher_to_on :: Watcher where
  "watcher_to_on =
     \<lparr>Watcher.id' = ''abc12345'', Watcher.entityId = ''light.bedroom'',
      Watcher.fromState = None, Watcher.toState = Some ''on'',
      Watcher.message = ''commit git'', Watcher.oneShot = True,
      Watcher.createdAt = ''2026-01-01T00:00:00.000Z''\<rparr>"

definition watcher_any :: Watcher where
  "watcher_any =
     \<lparr>Watcher.id' = ''def67890'', Watcher.entityId = ''light.bedroom'',
      Watcher.fromState = None, Watcher.toState = None,
      Watcher.message = ''notify me'', Watcher.oneShot = False,
      Watcher.createdAt = ''2026-01-02T00:00:00.000Z''\<rparr>"

definition listener_any :: Listener where
  "listener_any =
     \<lparr>Listener.id' = ''def67890'', Listener.entityId = ''light.bedroom'',
      Listener.fromState = None, Listener.toState = None,
      Listener.message = ''notify me'', Listener.oneShot = False,
      Listener.createdAt = ''2026-01-02T00:00:00.000Z''\<rparr>"

text \<open>A recurring listener on another entity that carries the id of \<open>listener_to_on\<close>.\<close>

definition listener_kitchen_same_id :: Listener where
  "listener_kitchen_same_id =
     \<lparr>Listener.id' = ''abc12345'', Listener.entityId = ''light.kitchen'',
      Listener.fromState = None, Listener.toState = None,
      Listener.message = ''notify me'', Listener.oneShot = False,
      Listener.createdAt = ''2026-01-02T00:00:00.000Z''\<rparr>"

definition fs_watchers :: "Watcher list \<Rightarrow> Watcher fs" where
  "fs_watchers xs =
     \<lparr>files = (\<lambda>p. if p = ''/state/plugins/homeassistant/watchers.json''
                    then Some (File (Encodes (ArrayOf xs))) else None),
      unwritable = {}, journal = []\<rparr>"

definition fs_listeners :: "Listener list \<Rightarrow> Listener fs" where
  "fs_listeners xs =
     \<lparr>files = (\<lambda>p. if p = ''/state/plugins/homeassistant/listeners.json''
                    then Some (File (Encodes (ArrayOf xs))) else None),
      unwritable = {}, journal = []\<rparr>"

definition cfg_with_key :: WatcherServiceConfig where
  "cfg_with_key =
     \<lparr>WatcherServiceConfig.url = ''http://ha.local:8123/'',
      WatcherServiceConfig.token = ''secret'',
      WatcherServiceConfig.stateDir = ''/state'',
      enqueueSystemEvent = (\<lambda>text' key. None),
      resolveSessionKey = (\<lambda>u. Some ''agent:main'')\<rparr>"

definition cfg_without_key :: WatcherServiceConfig where
  "cfg_without_key =
     \<lparr>WatcherServiceConfig.url = ''http://ha.local:8123/'',
      WatcherServiceConfig.token = ''secret'',
      WatcherServiceConfig.stateDir = ''/state'',
      enqueueSystemEvent = (\<lambda>text' key. None),
      resolveSessionKey = (\<lambda>u. None)\<rparr>"

definition cfg_listener :: ListenerServiceConfig where
  "cfg_listener =
     \<lparr>ListenerServiceConfig.url = ''http://ha.local:8123/'',
      ListenerServiceConfig.token = ''secret'',
      ListenerServiceConfig.stateDir = ''/state''\<rparr>"

definition snapshot_off :: snapshot where
  "snapshot_off = \<lparr>state = ''off'', attributes = (\<lambda>k. None)\<rparr>"

definition snapshot_on :: snapshot where
  "snapshot_on =
     \<lparr>state = ''on'',
      attributes = (\<lambda>k. if k = ''friendly_name'' then Some ''Bedroom'' else None)\<rparr>"

definition bedroom_turns_on :: HAStateChangedEvent where
  "bedroom_turns_on =
     \<lparr>event_type = ''state_changed'',
      data = \<lparr>entity_id = ''light.bedroom'', old_state = Some snapshot_off,
              new_state = Some snapshot_on\<rparr>\<rparr>"

definition kitchen_turns_on :: HAStateChangedEvent where
  "kitchen_turns_on =
     \<lparr>event_type = ''state_changed'',
      data = \<lparr>entity_id = ''light.kitchen'', old_state = Some snapshot_off,
              new_state = Some snapshot_on\<rparr>\<rparr>"

definition bedroom_stays_on :: HAStateChangedEvent where
  "bedroom_stays_on =
     \<lparr>event_type = ''state_changed'',
      data = \<lparr>entity_id = ''light.bedroom'', old_state = Some snapshot_on,
              new_state = Some snapshot_on\<rparr>\<rparr>"

definition input_kitchen :: WatcherInput where
  "input_kitchen =
     \<lparr>WatcherInput.entityId = ''light.kitchen'', WatcherInput.fromState = None,
      WatcherInput.toState = Some ''on'', WatcherInput.message = ''task b'',
      WatcherInput.oneShot = False\<rparr>"

definition input_kitchen_listener :: ListenerInput where
  "input_kitchen_listener =
     \<lparr>ListenerInput.entityId = ''light.kitchen'', ListenerInput.fromState = None,
      ListenerInput.toState = Some ''on'', ListenerInput.message = ''task b'',
      ListenerInput.oneShot = False\<rparr>"

definition uuid_1 :: string where
  "uuid_1 = ''3f2b8c1e-9d4a-4c6b-8e2f-1a2b3c4d5e6f''"

definition now_1 :: string where
  "now_1 = ''2026-03-01T12:00:00.000Z''"

definition fs_nothing :: "'r fs" where
  "fs_nothing = \<lparr>files = (\<lambda>p. None), unwritable = {}, journal = []\<rparr>"

definition uuid_2 :: string where
  "uuid_2 = ''3f2b8c1e-0000-4000-8000-000000000000''"

definition input_door :: WatcherInput where
  "input_door =
     \<lparr>WatcherInput.entityId = ''binary_sensor.door'', WatcherInput.fromState = None,
      WatcherInput.toState = None, WatcherInput.message = ''notify me'',
      WatcherInput.oneShot = False\<rparr>"

definition input_door_listener :: ListenerInput where
  "input_door_listener =
     \<lparr>ListenerInput.entityId = ''binary_sensor.door'', ListenerInput.fromState = None,
      ListenerInput.toState = None, ListenerInput.message = ''notify me'',
      ListenerInput.oneShot = False\<rparr>"

definition colliding_ops :: "watcher_op list" where
  "colliding_ops =
     [Add_watcher input_kitchen uuid_1 now_1, Add_watcher input_door uuid_2 now_1]"

definition colliding_listener_ops :: "listener_op list" where
  "colliding_listener_ops =
     [Add_listener input_kitchen_listener uuid_1 now_1,
      Add_listener input_door_listener uuid_2 now_1]"

definition listener_kitchen :: Listener where
  "listener_kitchen =
     \<lparr>Listener.id' = ''3f2b8c1e'', Listener.entityId = ''light.kitchen'',
      Listener.fromState = None, Listener.toState = Some ''on'',
      Listener.message = ''task b'', Listener.oneShot = False,
      Listener.createdAt = ''2026-03-01T12:00:00.000Z''\<rparr>"

definition listener_door_same_id :: Listener where
  "listener_door_same_id =
     \<lparr>Listener.id' = ''3f2b8c1e'', Listener.entityId = ''binary_sensor.door'',
      Listener.fromState = None, Listener.toState = None,
      Listener.message = ''notify me'', Listener.oneShot = False,
      Listener.createdAt = ''2026-03-01T12:00:00.000Z''\<rparr>"



definition watcher_kitchen :: Watcher where
  "watcher_kitchen =
     \<lparr>Watcher.id' = ''3f2b8c1e'', Watcher.entityId = ''light.kitchen'',
      Watcher.fromState = None, Watcher.toState = Some ''on'',
      Watcher.message = ''task b'', Watcher.oneShot = False,
      Watcher.createdAt = ''2026-03-01T12:00:00.000Z''\<rparr>"

definition watcher_door_same_id :: Watcher where
  "watcher_door_same_id =
     \<lparr>Watcher.id' = ''3f2b8c1e'', Watcher.entityId = ''binary_sensor.door'',
      Watcher.fromState = None, Watcher.toState = None,
      Watcher.message = ''notify me'', Watcher.oneShot = False,
      Watcher.createdAt = ''2026-03-01T12:00:00.000Z''\<rparr>"

definition seven_failures :: "input list" where
  "seven_failures =
     failed_attempts None [None, Some ''Error: connect refused'', None, None, None, None]"

definition connected :: "HAWatcherService \<times> Watcher fs" where
  "connected =
     run cfg_with_key
       [Start None, Socket_open, Socket_message (Inr (Auth_required ''2026.1.0''))]
       (new_HAWatcherService, fs_nothing)"

definition after_auth_invalid :: "input list" where
  "after_auth_invalid =
     [Socket_error ''[object Event]'', Socket_close, Reconnect_timeout None, Ping_interval,
      Socket_close, Stop, Socket_message (Inr (Auth_ok ''2026.1.0''))]"

definition after_seven_failures :: "HAWatcherService \<times> Watcher fs" where
  "after_seven_failures = run cfg_with_key seven_failures (new_HAWatcherService, fs_nothing)"

section \<open>Properties of the rule store\<close>

lemma truthy_iff: "truthy x \<longleftrightarrow> x \<noteq> None \<and> x \<noteq> Some []"
  by (cases x) auto

lemma resolveWatchersPath_state:
  "resolveWatchersPath ''/state'' = ''/state/plugins/homeassistant/watchers.json''"
  by (simp add: resolveWatchersPath_def path_join_def WATCHERS_FILE_def)

lemma resolveListenersPath_state:
  "resolveListenersPath ''/state'' = ''/state/plugins/homeassistant/listeners.json''"
  by (simp add: resolveListenersPath_def path_join_def LISTENERS_FILE_def)

lemma loadWatchers_cases:
  "loadWatchers fs sd =
     Inr (case files fs (resolveWatchersPath sd) of
            Some (File (Encodes (ArrayOf xs))) \<Rightarrow> xs | _ \<Rightarrow> [])"
  by (simp add: loadWatchers_def loadWatchers_try_def readFile_def JSON_parse_def
      split: option.splits node.splits raw.splits json_value.splits)

lemma loadListeners_cases:
  "loadListeners fs sd =
     Inr (case files fs (resolveListenersPath sd) of
            Some (File (Encodes (ArrayOf xs))) \<Rightarrow> xs | _ \<Rightarrow> [])"
  by (simp add: loadListeners_def loadListeners_try_def readFile_def JSON_parse_def
      split: option.splits node.splits raw.splits json_value.splits)

text \<open>
  C1, as stated, fails: a rule whose \<^verbatim>\<open>fromState\<close> is set to the empty string matches a
  transition from "off" to "on", although its \<^verbatim>\<open>fromState\<close> is neither unset nor
  equal to the old state.
\<close>

theorem matches_empty_filter_counterexample:
  "matchesWatcher rule_empty_from ''light.bedroom'' ''off'' ''on''
   \<and> \<not> matches_stated (Watcher.entityId rule_empty_from) (Watcher.fromState rule_empty_from)
          (Watcher.toState rule_empty_from) ''light.bedroom'' ''off'' ''on''"
  by (simp add: matchesWatcher_def matches_stated_def rule_empty_from_def)

text \<open>
  C1, amended: in both variants a rule matches a transition if and only if the entity is
  the rule's, the old state differs from the new state, \<^verbatim>\<open>fromState\<close> is unset, empty or
  equal to the old state, and \<^verbatim>\<open>toState\<close> is unset, empty or equal to the new state.
\<close>

theorem matches_iff:
  "(matchesWatcher w e old new \<longleftrightarrow>
      Watcher.entityId w = e \<and> old \<noteq> new
      \<and> (Watcher.fromState w = None \<or> Watcher.fromState w = Some []
          \<or> Watcher.fromState w = Some old)
      \<and> (Watcher.toState w = None \<or> Watcher.toState w = Some []
          \<or> Watcher.toState w = Some new))
   \<and> (matchesListener l e old new \<longleftrightarrow>
      Listener.entityId l = e \<and> old \<noteq> new
      \<and> (Listener.fromState l = None \<or> Listener.fromState l = Some []
          \<or> Listener.fromState l = Some old)
      \<and> (Listener.toState l = None \<or> Listener.toState l = Some []
          \<or> Listener.toState l = Some new))"
  unfolding matchesWatcher_def matchesListener_def truthy_iff by auto

theorem matches_iff_witness:
  "matchesWatcher rule_off_on ''light.bedroom'' ''off'' ''on''
   \<and> \<not> matchesWatcher rule_off_on ''light.bedroom'' ''unavailable'' ''on''
   \<and> \<not> matchesWatcher rule_off_on ''light.bedroom'' ''on'' ''on''
   \<and> matchesListener listener_to_on ''light.bedroom'' ''off'' ''on''
   \<and> \<not> matchesListener listener_to_on ''light.kitchen'' ''off'' ''on''"
  using matches_iff [of rule_off_on "''light.bedroom''" "''off''" "''on''"
                        listener_to_on]
        matches_iff [of rule_off_on "''light.bedroom''" "''unavailable''" "''on''"
                        listener_to_on]
        matches_iff [of rule_off_on "''light.bedroom''" "''on''" "''on''"
                        listener_to_on]
        matches_iff [of rule_off_on "''light.kitchen''" "''off''" "''on''"
                        listener_to_on]
  by (simp add: rule_off_on_def listener_to_on_def)

text \<open>
  C9: the pure rule logic of the two variants coincides. On a listener read as a
  watcher, \<^verbatim>\<open>matchesListener\<close> and \<^verbatim>\<open>matchesWatcher\<close> return the same boolean, and
  \<^verbatim>\<open>formatListener\<close> and \<^verbatim>\<open>formatWatcher\<close> the same display string.
\<close>

theorem variants_coincide:
  "matchesListener l e old new = matchesWatcher (as_Watcher l) e old new
   \<and> formatListener l = formatWatcher (as_Watcher l)"
  by (simp add: matchesListener_def matchesWatcher_def formatListener_def formatWatcher_def
      as_Watcher_def)

theorem variants_coincide_witness:
  "matchesWatcher (as_Watcher listener_to_on) ''light.bedroom'' ''off'' ''on''
   \<and> formatWatcher (as_Watcher listener_to_on)
       = ''[abc12345] `light.bedroom` to '' @ dquote @ ''on'' @ dquote @ '' (one-shot) ''
         @ arrow @ '' '' @ dquote @ ''commit git'' @ dquote"
proof -
  have m: "matchesListener listener_to_on ''light.bedroom'' ''off'' ''on''"
    by (simp add: matchesListener_def listener_to_on_def)
  have f: "formatListener listener_to_on
       = ''[abc12345] `light.bedroom` to '' @ dquote @ ''on'' @ dquote @ '' (one-shot) ''
         @ arrow @ '' '' @ dquote @ ''commit git'' @ dquote"
    by (simp add: formatListener_def listener_to_on_def or_else_def dquote_def arrow_def)
  from m f variants_coincide [of listener_to_on "''light.bedroom''" "''off''" "''on''"]
  show ?thesis by simp
qed

text \<open>
  C5: \<^verbatim>\<open>loadWatchers\<close> and \<^verbatim>\<open>loadListeners\<close> return the empty sequence when the
  backing file is absent, when its content fails to parse as JSON, and when it parses to
  a value that is not an array; and they raise no error, whatever the file system holds.
\<close>

theorem load_fails_open:
  "(files fs (resolveWatchersPath stateDir') = None
      \<or> files fs (resolveWatchersPath stateDir') = Some (File Unparsable)
      \<or> files fs (resolveWatchersPath stateDir') = Some (File (Encodes NotArray))
    \<longrightarrow> loadWatchers fs stateDir' = Inr [])
   \<and> (files fs' (resolveListenersPath stateDir') = None
      \<or> files fs' (resolveListenersPath stateDir') = Some (File Unparsable)
      \<or> files fs' (resolveListenersPath stateDir') = Some (File (Encodes NotArray))
    \<longrightarrow> loadListeners fs' stateDir' = Inr [])
   \<and> loadWatchers fs stateDir' \<noteq> Inl e
   \<and> loadListeners fs' stateDir' \<noteq> Inl e"
  by (auto simp add: loadWatchers_cases loadListeners_cases)

theorem load_fails_open_witness:
  "files fs_watchers_not_array (resolveWatchersPath ''/state'') = Some (File (Encodes NotArray))
   \<and> loadWatchers fs_watchers_not_array ''/state'' = Inr []
   \<and> files fs_listeners_unparsable (resolveListenersPath ''/state'') = Some (File Unparsable)
   \<and> loadListeners fs_listeners_unparsable ''/state'' = Inr []"
  using load_fails_open [of fs_watchers_not_array "''/state''" fs_listeners_unparsable]
  by (simp add: fs_watchers_not_array_def fs_listeners_unparsable_def
      resolveWatchersPath_state resolveListenersPath_state)

section \<open>Properties of the event handlers\<close>

lemma handleStateChanged_absent:
  "old_state (data ev) = None \<or> new_state (data ev) = None
   \<Longrightarrow> handleStateChanged cfg ev fs = ([], fs, None)"
  by (auto simp add: handleStateChanged_def split: option.splits)

lemma handleStateChanged_present:
  assumes "old_state (data ev) = Some old" "new_state (data ev) = Some new"
    and "loadWatchers fs (WatcherServiceConfig.stateDir cfg) = Inr xs"
  shows "handleStateChanged cfg ev fs =
     (let entity = entity_id (data ev);
          matched = filter (\<lambda>w. matchesWatcher w entity (state old) (state new)) xs;
          warning = Log Warn (''[ha-watcher] watcher matched for '' @ entity
                              @ '' but no sessionKey available'')
      in if matched = [] then ([], fs, None)
         else if \<not> truthy (resolveSessionKey cfg ()) then ([warning], fs, None)
         else
          (let delivered = deliver_watchers cfg (the (resolveSessionKey cfg ()))
                 (case attributes new ''friendly_name'' of Some n \<Rightarrow> n | None \<Rightarrow> entity)
                 entity (state old) (state new) matched;
               fired = remdups (map Watcher.id' (filter Watcher.oneShot matched))
           in if fired = [] then (delivered, fs, None)
              else case saveWatchers fs (WatcherServiceConfig.stateDir cfg)
                          (filter (\<lambda>w. Watcher.id' w \<notin> set fired) xs) of
                     Inl e \<Rightarrow> (delivered, fs, Some e)
                   | Inr fs' \<Rightarrow>
                       (delivered @ [Log Info (''[ha-watcher] removed ''
                           @ String_of_nat (length fired) @ '' one-shot watcher(s)'')],
                        fs', None)))"
proof (cases "state old = state new")
  case True
  then have "filter (\<lambda>w. matchesWatcher w (entity_id (data ev)) (state old) (state new)) xs = []"
    by (simp add: matchesWatcher_def)
  with True assms show ?thesis
    by (simp add: handleStateChanged_def Let_def)
next
  case False
  with assms show ?thesis
    by (auto simp add: handleStateChanged_def Let_def split: option.splits sum.splits)
qed

lemma loadWatchers_total: "\<exists>xs. loadWatchers fs sd = Inr xs"
  by (simp add: loadWatchers_def split: sum.splits)

lemma loadWatchers_nonempty_readable:
  "loadWatchers fs sd = Inr xs \<Longrightarrow> xs \<noteq> [] \<Longrightarrow> readable_or_absent fs (resolveWatchersPath sd)"
  by (auto simp add: loadWatchers_def loadWatchers_try_def readFile_def JSON_parse_def
      readable_or_absent_def Let_def
      split: option.splits node.splits raw.splits json_value.splits)

lemma saveWatchers_writable:
  "resolveWatchersPath sd \<notin> unwritable fs \<Longrightarrow> readable_or_absent fs (resolveWatchersPath sd) \<Longrightarrow>
   saveWatchers fs sd xs =
     Inr (fs\<lparr>files := (files fs)(resolveWatchersPath sd \<mapsto> File (JSON_stringify xs)),
             journal := journal fs @ [(resolveWatchersPath sd, JSON_stringify xs)]\<rparr>)"
  by (auto simp add: saveWatchers_def mkdir_writeFile_def Let_def readable_or_absent_def
      split: option.splits node.splits)

lemma saveWatchers_unwritable:
  "resolveWatchersPath sd \<in> unwritable fs \<Longrightarrow> saveWatchers fs sd xs = Inl EACCES"
  by (simp add: saveWatchers_def mkdir_writeFile_def Let_def)

lemma loadWatchers_written:
  "loadWatchers (fs\<lparr>files := (files fs)(resolveWatchersPath sd \<mapsto> File (JSON_stringify xs)),
                    journal := j\<rparr>) sd = Inr xs"
  by (simp add: loadWatchers_def loadWatchers_try_def readFile_def JSON_parse_def
      JSON_stringify_def)

lemma filter_by_id_distinct:
  assumes "distinct (map f xs)"
  shows "filter (\<lambda>w. f w \<notin> f ` {x \<in> set xs. P x}) xs = filter (\<lambda>w. \<not> P w) xs"
proof (rule filter_cong [OF refl])
  fix w assume w: "w \<in> set xs"
  from assms have "inj_on f (set xs)" by (simp add: distinct_map)
  with w have "f w \<in> f ` {x \<in> set xs. P x} \<longleftrightarrow> P w"
    by (auto dest: inj_onD)
  then show "(f w \<notin> f ` {x \<in> set xs. P x}) = (\<not> P w)" by simp
qed

lemma handleStateChanged_nothing:
  assumes "old_state (data ev) = None \<or> new_state (data ev) = None
     \<or> map_option state (old_state (data ev)) = map_option state (new_state (data ev))
     \<or> (\<exists>old new xs. old_state (data ev) = Some old \<and> new_state (data ev) = Some new
           \<and> loadWatchers fs (WatcherServiceConfig.stateDir cfg) = Inr xs
           \<and> (\<forall>w \<in> set xs. \<not> matchesWatcher w (entity_id (data ev)) (state old) (state new)))"
  shows "handleStateChanged cfg ev fs = ([], fs, None)"
proof (cases "old_state (data ev) = None \<or> new_state (data ev) = None")
  case True
  then show ?thesis by (rule handleStateChanged_absent)
next
  case False
  then obtain old new where on: "old_state (data ev) = Some old" "new_state (data ev) = Some new"
    by auto
  obtain xs where xs: "loadWatchers fs (WatcherServiceConfig.stateDir cfg) = Inr xs"
    using loadWatchers_total by blast
  from assms on xs
  have "filter (\<lambda>w. matchesWatcher w (entity_id (data ev)) (state old) (state new)) xs = []"
    by (auto simp add: filter_empty_conv matchesWatcher_def)
  then show ?thesis
    by (simp add: handleStateChanged_present [OF on xs])
qed

lemma handleStateChanged_no_key:
  assumes "old_state (data ev) = Some old" "new_state (data ev) = Some new"
    and "loadWatchers fs (WatcherServiceConfig.stateDir cfg) = Inr xs"
    and "\<exists>w \<in> set xs. matchesWatcher w (entity_id (data ev)) (state old) (state new)"
    and "resolveSessionKey cfg () = None \<or> resolveSessionKey cfg () = Some []"
  shows "handleStateChanged cfg ev fs =
           ([Log Warn (''[ha-watcher] watcher matched for '' @ entity_id (data ev)
                       @ '' but no sessionKey available'')], fs, None)"
proof -
  from assms(4)
  have "filter (\<lambda>w. matchesWatcher w (entity_id (data ev)) (state old) (state new)) xs \<noteq> []"
    by (simp add: filter_empty_conv)
  moreover from assms(5) have "\<not> truthy (resolveSessionKey cfg ())" by auto
  ultimately show ?thesis
    by (simp add: handleStateChanged_present [OF assms(1-3)])
qed

lemma handleStateChanged_retires:
  assumes on: "old_state (data ev) = Some old" "new_state (data ev) = Some new"
    and xs: "loadWatchers fs (WatcherServiceConfig.stateDir cfg) = Inr xs"
    and m: "\<exists>w \<in> set xs. matchesWatcher w (entity_id (data ev)) (state old) (state new)"
    and k: "resolveSessionKey cfg () = Some key" "key \<noteq> []"
    and w: "resolveWatchersPath (WatcherServiceConfig.stateDir cfg) \<notin> unwritable fs"
  defines "M \<equiv> \<lambda>w. matchesWatcher w (entity_id (data ev)) (state old) (state new)"
  defines "fired \<equiv> Watcher.id' ` {w \<in> set xs. M w \<and> Watcher.oneShot w}"
  defines "fs' \<equiv> fst (snd (handleStateChanged cfg ev fs))"
  shows "snd (snd (handleStateChanged cfg ev fs)) = None"
    and "loadWatchers fs' (WatcherServiceConfig.stateDir cfg)
           = Inr (filter (\<lambda>w. Watcher.id' w \<notin> fired) xs)"
    and "distinct (map Watcher.id' xs)
           \<Longrightarrow> filter (\<lambda>w. Watcher.id' w \<notin> fired) xs = retire_stated M Watcher.oneShot xs"
    and "journal fs' = journal fs @
           (if fired = {} then []
            else [(resolveWatchersPath (WatcherServiceConfig.stateDir cfg),
                   JSON_stringify (filter (\<lambda>w. Watcher.id' w \<notin> fired) xs))])"
proof -
  from m have ne: "filter M xs \<noteq> []"
    by (simp add: filter_empty_conv M_def)
  from k have t: "truthy (resolveSessionKey cfg ())" by simp
  from m have "xs \<noteq> []" by auto
  note r = loadWatchers_nonempty_readable [OF xs this]
  have fired_set: "set (remdups (map Watcher.id' (filter Watcher.oneShot (filter M xs)))) = fired"
    by (auto simp add: fired_def)
  have fired_empty: "remdups (map Watcher.id' (filter Watcher.oneShot (filter M xs))) = [] \<longleftrightarrow> fired = {}"
    using fired_set by (metis set_empty)
  have unfired: "fired = {} \<Longrightarrow> filter (\<lambda>w. Watcher.id' w \<notin> fired) xs = xs"
    by simp
  have eq: "handleStateChanged cfg ev fs =
     (let delivered = deliver_watchers cfg key
                 (case attributes new ''friendly_name'' of Some n \<Rightarrow> n | None \<Rightarrow> entity_id (data ev))
                 (entity_id (data ev)) (state old) (state new) (filter M xs)
      in if fired = {} then (delivered, fs, None)
         else (delivered @ [Log Info (''[ha-watcher] removed ''
                 @ String_of_nat (length (remdups (map Watcher.id' (filter Watcher.oneShot (filter M xs)))))
                 @ '' one-shot watcher(s)'')],
               fs\<lparr>files := (files fs)(resolveWatchersPath (WatcherServiceConfig.stateDir cfg)
                        \<mapsto> File (JSON_stringify (filter (\<lambda>w. Watcher.id' w \<notin> fired) xs))),
                   journal := journal fs @ [(resolveWatchersPath (WatcherServiceConfig.stateDir cfg),
                        JSON_stringify (filter (\<lambda>w. Watcher.id' w \<notin> fired) xs))]\<rparr>, None))"
    unfolding handleStateChanged_present [OF on xs] Let_def M_def [symmetric]
    using ne t k fired_empty
    by (simp only: if_False if_True not_True_eq_False not_not option.sel fired_set
        saveWatchers_writable [OF w r] sum.case split: if_splits) 
  show "snd (snd (handleStateChanged cfg ev fs)) = None"
    by (simp add: eq Let_def)
  show "loadWatchers fs' (WatcherServiceConfig.stateDir cfg)
           = Inr (filter (\<lambda>w. Watcher.id' w \<notin> fired) xs)"
    unfolding fs'_def eq Let_def
    by (cases "fired = {}") (simp_all add: xs loadWatchers_written)
  show "journal fs' = journal fs @
           (if fired = {} then []
            else [(resolveWatchersPath (WatcherServiceConfig.stateDir cfg),
                   JSON_stringify (filter (\<lambda>w. Watcher.id' w \<notin> fired) xs))])"
    unfolding fs'_def eq Let_def by simp
  show "filter (\<lambda>w. Watcher.id' w \<notin> fired) xs = retire_stated M Watcher.oneShot xs"
    if "distinct (map Watcher.id' xs)"
    unfolding fired_def retire_stated_def
    using filter_by_id_distinct [OF that, of "\<lambda>w. M w \<and> Watcher.oneShot w"] by simp
qed

lemma handleStateChanged_listener_absent:
  "old_state (data ev) = None \<or> new_state (data ev) = None
   \<Longrightarrow> handleStateChanged_listener cfg exec ev fs = ([], fs, None)"
  by (auto simp add: handleStateChanged_listener_def split: option.splits)

lemma handleStateChanged_listener_present:
  assumes "old_state (data ev) = Some old" "new_state (data ev) = Some new"
    and "loadListeners fs (ListenerServiceConfig.stateDir cfg) = Inr xs"
  shows "handleStateChanged_listener cfg exec ev fs =
     (let entity = entity_id (data ev);
          matched = filter (\<lambda>l. matchesListener l entity (state old) (state new)) xs
      in if matched = [] then ([], fs, None)
         else
          (let delivered = deliver_listeners exec
                 (case attributes new ''friendly_name'' of Some n \<Rightarrow> n | None \<Rightarrow> entity)
                 entity (state old) (state new) matched;
               fired = remdups (map Listener.id' (filter Listener.oneShot matched))
           in if fired = [] then (delivered, fs, None)
              else case saveListeners fs (ListenerServiceConfig.stateDir cfg)
                          (filter (\<lambda>l. Listener.id' l \<notin> set fired) xs) of
                     Inl e \<Rightarrow> (delivered, fs, Some e)
                   | Inr fs' \<Rightarrow>
                       (delivered @ [Log Info (''[ha-listener] removed ''
                           @ String_of_nat (length fired) @ '' one-shot listener(s)'')],
                        fs', None)))"
proof (cases "state old = state new")
  case True
  then have "filter (\<lambda>l. matchesListener l (entity_id (data ev)) (state old) (state new)) xs = []"
    by (simp add: matchesListener_def)
  with True assms show ?thesis
    by (simp add: handleStateChanged_listener_def Let_def)
next
  case False
  with assms show ?thesis
    by (auto simp add: handleStateChanged_listener_def Let_def split: option.splits sum.splits)
qed

lemma loadListeners_total: "\<exists>xs. loadListeners fs sd = Inr xs"
  by (simp add: loadListeners_def split: sum.splits)

lemma loadListeners_nonempty_readable:
  "loadListeners fs sd = Inr xs \<Longrightarrow> xs \<noteq> [] \<Longrightarrow> readable_or_absent fs (resolveListenersPath sd)"
  by (auto simp add: loadListeners_def loadListeners_try_def readFile_def JSON_parse_def
      readable_or_absent_def Let_def
      split: option.splits node.splits raw.splits json_value.splits)

lemma saveListeners_writable:
  "resolveListenersPath sd \<notin> unwritable fs \<Longrightarrow> readable_or_absent fs (resolveListenersPath sd) \<Longrightarrow>
   saveListeners fs sd xs =
     Inr (fs\<lparr>files := (files fs)(resolveListenersPath sd \<mapsto> File (JSON_stringify xs)),
             journal := journal fs @ [(resolveListenersPath sd, JSON_stringify xs)]\<rparr>)"
  by (auto simp add: saveListeners_def mkdir_writeFile_def Let_def readable_or_absent_def
      split: option.splits node.splits)

lemma saveListeners_unwritable:
  "resolveListenersPath sd \<in> unwritable fs \<Longrightarrow> saveListeners fs sd xs = Inl EACCES"
  by (simp add: saveListeners_def mkdir_writeFile_def Let_def)

lemma loadListeners_written:
  "loadListeners (fs\<lparr>files := (files fs)(resolveListenersPath sd \<mapsto> File (JSON_stringify xs)),
                     journal := j\<rparr>) sd = Inr xs"
  by (simp add: loadListeners_def loadListeners_try_def readFile_def JSON_parse_def
      JSON_stringify_def)

lemma handleStateChanged_listener_nothing:
  assumes "old_state (data ev) = None \<or> new_state (data ev) = None
     \<or> map_option state (old_state (data ev)) = map_option state (new_state (data ev))
     \<or> (\<exists>old new xs. old_state (data ev) = Some old \<and> new_state (data ev) = Some new
           \<and> loadListeners fs (ListenerServiceConfig.stateDir cfg) = Inr xs
           \<and> (\<forall>l \<in> set xs. \<not> matchesListener l (entity_id (data ev)) (state old) (state new)))"
  shows "handleStateChanged_listener cfg exec ev fs = ([], fs, None)"
proof (cases "old_state (data ev) = None \<or> new_state (data ev) = None")
  case True
  then show ?thesis by (rule handleStateChanged_listener_absent)
next
  case False
  then obtain old new where on: "old_state (data ev) = Some old" "new_state (data ev) = Some new"
    by auto
  obtain xs where xs: "loadListeners fs (ListenerServiceConfig.stateDir cfg) = Inr xs"
    using loadListeners_total by blast
  from assms on xs
  have "filter (\<lambda>l. matchesListener l (entity_id (data ev)) (state old) (state new)) xs = []"
    by (auto simp add: filter_empty_conv matchesListener_def)
  then show ?thesis
    by (simp add: handleStateChanged_listener_present [OF on xs])
qed

lemma handleStateChanged_listener_retires:
  fixes exec :: "string \<Rightarrow> string option"
  assumes on: "old_state (data ev) = Some old" "new_state (data ev) = Some new"
    and xs: "loadListeners fs (ListenerServiceConfig.stateDir cfg) = Inr xs"
    and m: "\<exists>l \<in> set xs. matchesListener l (entity_id (data ev)) (state old) (state new)"
    and w: "resolveListenersPath (ListenerServiceConfig.stateDir cfg) \<notin> unwritable fs"
  defines "M \<equiv> \<lambda>l. matchesListener l (entity_id (data ev)) (state old) (state new)"
  defines "fired \<equiv> Listener.id' ` {l \<in> set xs. M l \<and> Listener.oneShot l}"
  defines "fs' \<equiv> fst (snd (handleStateChanged_listener cfg exec ev fs))"
  shows "snd (snd (handleStateChanged_listener cfg exec ev fs)) = None"
    and "loadListeners fs' (ListenerServiceConfig.stateDir cfg)
           = Inr (filter (\<lambda>l. Listener.id' l \<notin> fired) xs)"
    and "distinct (map Listener.id' xs)
           \<Longrightarrow> filter (\<lambda>l. Listener.id' l \<notin> fired) xs = retire_stated M Listener.oneShot xs"
    and "journal fs' = journal fs @
           (if fired = {} then []
            else [(resolveListenersPath (ListenerServiceConfig.stateDir cfg),
                   JSON_stringify (filter (\<lambda>l. Listener.id' l \<notin> fired) xs))])"
proof -
  from m have ne: "filter M xs \<noteq> []"
    by (simp add: filter_empty_conv M_def)
  from m have "xs \<noteq> []" by auto
  note r = loadListeners_nonempty_readable [OF xs this]
  have fired_set: "set (remdups (map Listener.id' (filter Listener.oneShot (filter M xs)))) = fired"
    by (auto simp add: fired_def)
  have fired_empty:
    "remdups (map Listener.id' (filter Listener.oneShot (filter M xs))) = [] \<longleftrightarrow> fired = {}"
    using fired_set by (metis set_empty)
  have eq: "handleStateChanged_listener cfg exec ev fs =
     (let delivered = deliver_listeners exec
                 (case attributes new ''friendly_name'' of Some n \<Rightarrow> n | None \<Rightarrow> entity_id (data ev))
                 (entity_id (data ev)) (state old) (state new) (filter M xs)
      in if fired = {} then (delivered, fs, None)
         else (delivered @ [Log Info (''[ha-listener] removed ''
                 @ String_of_nat (length (remdups (map Listener.id' (filter Listener.oneShot (filter M xs)))))
                 @ '' one-shot listener(s)'')],
               fs\<lparr>files := (files fs)(resolveListenersPath (ListenerServiceConfig.stateDir cfg)
                        \<mapsto> File (JSON_stringify (filter (\<lambda>l. Listener.id' l \<notin> fired) xs))),
                   journal := journal fs @ [(resolveListenersPath (ListenerServiceConfig.stateDir cfg),
                        JSON_stringify (filter (\<lambda>l. Listener.id' l \<notin> fired) xs))]\<rparr>, None))"
    unfolding handleStateChanged_listener_present [OF on xs] Let_def M_def [symmetric]
    using ne fired_empty
    by (simp only: if_False if_True not_True_eq_False not_not fired_set
        saveListeners_writable [OF w r] sum.case split: if_splits)
  show "snd (snd (handleStateChanged_listener cfg exec ev fs)) = None"
    by (simp add: eq Let_def)
  show "loadListeners fs' (ListenerServiceConfig.stateDir cfg)
           = Inr (filter (\<lambda>l. Listener.id' l \<notin> fired) xs)"
    unfolding fs'_def eq Let_def
    by (cases "fired = {}") (simp_all add: xs loadListeners_written)
  show "journal fs' = journal fs @
           (if fired = {} then []
            else [(resolveListenersPath (ListenerServiceConfig.stateDir cfg),
                   JSON_stringify (filter (\<lambda>l. Listener.id' l \<notin> fired) xs))])"
    unfolding fs'_def eq Let_def by simp
  show "filter (\<lambda>l. Listener.id' l \<notin> fired) xs = retire_stated M Listener.oneShot xs"
    if "distinct (map Listener.id' xs)"
    unfolding fired_def retire_stated_def
    using filter_by_id_distinct [OF that, of "\<lambda>l. M l \<and> Listener.oneShot l"] by simp
qed

text \<open>The same, with the fired ids as the list the handler collects them from.\<close>

lemma handleStateChanged_retires_list:
  assumes "old_state (data ev) = Some old" "new_state (data ev) = Some new"
    and "loadWatchers fs (WatcherServiceConfig.stateDir cfg) = Inr xs"
    and "\<exists>w \<in> set xs. matchesWatcher w (entity_id (data ev)) (state old) (state new)"
    and "resolveSessionKey cfg () = Some key" "key \<noteq> []"
    and "resolveWatchersPath (WatcherServiceConfig.stateDir cfg) \<notin> unwritable fs"
  shows
    "(let matched = (\<lambda>w. matchesWatcher w (entity_id (data ev)) (state old) (state new));
          fired = map Watcher.id' (filter (\<lambda>w. matched w \<and> Watcher.oneShot w) xs);
          remaining = filter (\<lambda>w. Watcher.id' w \<notin> set fired) xs;
          result = handleStateChanged cfg ev fs
      in snd (snd result) = None
         \<and> loadWatchers (fst (snd result)) (WatcherServiceConfig.stateDir cfg) = Inr remaining
         \<and> (distinct (map Watcher.id' xs) \<longrightarrow> remaining = retire_stated matched Watcher.oneShot xs)
         \<and> journal (fst (snd result)) = journal fs @
              (if fired = [] then []
               else [(resolveWatchersPath (WatcherServiceConfig.stateDir cfg),
                      JSON_stringify remaining)]))"
proof -
  have s: "\<And>P. set (map Watcher.id' (filter P xs)) = Watcher.id' ` {w \<in> set xs. P w}"
    by auto
  have e: "\<And>P. (map Watcher.id' (filter P xs) = []) = (Watcher.id' ` {w \<in> set xs. P w} = {})"
    by (auto simp add: filter_empty_conv)
  show ?thesis
    unfolding Let_def s e
    using handleStateChanged_retires [OF assms] by blast
qed

lemma handleStateChanged_listener_retires_list:
  fixes exec :: "string \<Rightarrow> string option"
  assumes "old_state (data ev) = Some old" "new_state (data ev) = Some new"
    and "loadListeners fs (ListenerServiceConfig.stateDir cfg) = Inr xs"
    and "\<exists>l \<in> set xs. matchesListener l (entity_id (data ev)) (state old) (state new)"
    and "resolveListenersPath (ListenerServiceConfig.stateDir cfg) \<notin> unwritable fs"
  shows
    "(let matched = (\<lambda>l. matchesListener l (entity_id (data ev)) (state old) (state new));
          fired = map Listener.id' (filter (\<lambda>l. matched l \<and> Listener.oneShot l) xs);
          remaining = filter (\<lambda>l. Listener.id' l \<notin> set fired) xs;
          result = handleStateChanged_listener cfg exec ev fs
      in snd (snd result) = None
         \<and> loadListeners (fst (snd result)) (ListenerServiceConfig.stateDir cfg) = Inr remaining
         \<and> (distinct (map Listener.id' xs) \<longrightarrow> remaining = retire_stated matched Listener.oneShot xs)
         \<and> journal (fst (snd result)) = journal fs @
              (if fired = [] then []
               else [(resolveListenersPath (ListenerServiceConfig.stateDir cfg),
                      JSON_stringify remaining)]))"
proof -
  have s: "\<And>P. set (map Listener.id' (filter P xs)) = Listener.id' ` {l \<in> set xs. P l}"
    by auto
  have e: "\<And>P. (map Listener.id' (filter P xs) = []) = (Listener.id' ` {l \<in> set xs. P l} = {})"
    by (auto simp add: filter_empty_conv)
  show ?thesis
    unfolding Let_def s e
    using handleStateChanged_listener_retires [OF assms] by blast
qed

text \<open>The concrete rules, events and configurations, evaluated.\<close>

lemma load_fs_watchers: "loadWatchers (fs_watchers xs) ''/state'' = Inr xs"
  by (simp add: loadWatchers_cases resolveWatchersPath_state fs_watchers_def)

lemma load_fs_listeners: "loadListeners (fs_listeners xs) ''/state'' = Inr xs"
  by (simp add: loadListeners_cases resolveListenersPath_state fs_listeners_def)

lemma example_watchers:
  "matchesWatcher watcher_to_on ''light.bedroom'' ''off'' ''on''"
  "matchesWatcher watcher_any ''light.bedroom'' ''off'' ''on''"
  "Watcher.oneShot watcher_to_on" "\<not> Watcher.oneShot watcher_any"
  "Watcher.id' watcher_to_on = ''abc12345''" "Watcher.id' watcher_any = ''def67890''"
  by (simp_all add: matchesWatcher_def watcher_to_on_def watcher_any_def)

lemma example_listeners:
  "matchesListener listener_to_on ''light.bedroom'' ''off'' ''on''"
  "matchesListener listener_any ''light.bedroom'' ''off'' ''on''"
  "\<not> matchesListener listener_kitchen_same_id ''light.bedroom'' ''off'' ''on''"
  "Listener.oneShot listener_to_on" "\<not> Listener.oneShot listener_any"
  "\<not> Listener.oneShot listener_kitchen_same_id"
  "Listener.id' listener_to_on = ''abc12345''" "Listener.id' listener_any = ''def67890''"
  "Listener.id' listener_kitchen_same_id = ''abc12345''"
  by (simp_all add: matchesListener_def listener_to_on_def listener_any_def
      listener_kitchen_same_id_def)

lemma example_event:
  "old_state (data bedroom_turns_on) = Some snapshot_off"
  "new_state (data bedroom_turns_on) = Some snapshot_on"
  "entity_id (data bedroom_turns_on) = ''light.bedroom''"
  "state snapshot_off = ''off''" "state snapshot_on = ''on''"
  by (simp_all add: bedroom_turns_on_def snapshot_off_def snapshot_on_def)

lemma example_configs:
  "WatcherServiceConfig.stateDir cfg_with_key = ''/state''"
  "WatcherServiceConfig.stateDir cfg_without_key = ''/state''"
  "ListenerServiceConfig.stateDir cfg_listener = ''/state''"
  "resolveSessionKey cfg_with_key () = Some ''agent:main''"
  "resolveSessionKey cfg_without_key () = None"
  by (simp_all add: cfg_with_key_def cfg_without_key_def cfg_listener_def)

lemma example_writable:
  "resolveWatchersPath ''/state'' \<notin> unwritable (fs_watchers xs)"
  "resolveListenersPath ''/state'' \<notin> unwritable (fs_listeners ys)"
  "journal (fs_watchers xs) = []" "journal (fs_listeners ys) = []"
  by (simp_all add: fs_watchers_def fs_listeners_def)

text \<open>
  C6: in both variants, when the prior state snapshot is absent, or the new one is absent,
  or the prior state string equals the new one, or no stored rule matches the transition,
  the handler does nothing at all: it delivers no trigger message (it has no effect),
  leaves the file system as it is (no write to the rule store), and raises no error.
\<close>

theorem ignored_event_frame:
  fixes exec :: "string \<Rightarrow> string option"
  shows
  "(old_state (data ev) = None \<or> new_state (data ev) = None
     \<or> map_option state (old_state (data ev)) = map_option state (new_state (data ev))
     \<or> (\<exists>old new xs. old_state (data ev) = Some old \<and> new_state (data ev) = Some new
           \<and> loadWatchers fs (WatcherServiceConfig.stateDir cfg) = Inr xs
           \<and> (\<forall>w \<in> set xs. \<not> matchesWatcher w (entity_id (data ev)) (state old) (state new)))
    \<longrightarrow> handleStateChanged cfg ev fs = ([], fs, None))
   \<and> (old_state (data ev) = None \<or> new_state (data ev) = None
     \<or> map_option state (old_state (data ev)) = map_option state (new_state (data ev))
     \<or> (\<exists>old new ys. old_state (data ev) = Some old \<and> new_state (data ev) = Some new
           \<and> loadListeners fs' (ListenerServiceConfig.stateDir cfg') = Inr ys
           \<and> (\<forall>l \<in> set ys. \<not> matchesListener l (entity_id (data ev)) (state old) (state new)))
    \<longrightarrow> handleStateChanged_listener cfg' exec ev fs' = ([], fs', None))"
  using handleStateChanged_nothing [of ev fs cfg]
        handleStateChanged_listener_nothing [of ev fs' cfg' exec]
  by blast

theorem ignored_event_frame_witness:
  "handleStateChanged cfg_with_key kitchen_turns_on (fs_watchers [watcher_to_on, watcher_any])
     = ([], fs_watchers [watcher_to_on, watcher_any], None)
   \<and> handleStateChanged_listener cfg_listener (\<lambda>cmd. None) bedroom_stays_on
        (fs_listeners [listener_to_on, listener_any])
     = ([], fs_listeners [listener_to_on, listener_any], None)"
proof -
  have w: "\<exists>old new xs. old_state (data kitchen_turns_on) = Some old
      \<and> new_state (data kitchen_turns_on) = Some new
      \<and> loadWatchers (fs_watchers [watcher_to_on, watcher_any])
            (WatcherServiceConfig.stateDir cfg_with_key) = Inr xs
      \<and> (\<forall>w \<in> set xs. \<not> matchesWatcher w (entity_id (data kitchen_turns_on)) (state old) (state new))"
    by (simp add: kitchen_turns_on_def cfg_with_key_def load_fs_watchers matchesWatcher_def
        watcher_to_on_def watcher_any_def)
  have l: "map_option state (old_state (data bedroom_stays_on))
            = map_option state (new_state (data bedroom_stays_on))"
    by (simp add: bedroom_stays_on_def)
  from w l
    ignored_event_frame [of kitchen_turns_on "fs_watchers [watcher_to_on, watcher_any]"
      cfg_with_key "fs_listeners [listener_to_on, listener_any]" cfg_listener "\<lambda>cmd. None"]
    ignored_event_frame [of bedroom_stays_on "fs_watchers [watcher_to_on, watcher_any]"
      cfg_with_key "fs_listeners [listener_to_on, listener_any]" cfg_listener "\<lambda>cmd. None"]
  show ?thesis by blast
qed

text \<open>
  C10: in the session-injection variant, when the event matches at least one stored rule
  and \<^verbatim>\<open>resolveSessionKey\<close> returns no session key (\<^verbatim>\<open>undefined\<close>, or the empty
  string, which is falsy too), the handler returns early: its only effect is one warning
  of the logger, so no trigger message is delivered, and the file system is left as it
  is, so no matched one-shot rule is retired and the stored rule set is unchanged.
\<close>

theorem no_session_key_frame:
  assumes "old_state (data ev) = Some old" "new_state (data ev) = Some new"
    and "loadWatchers fs (WatcherServiceConfig.stateDir cfg) = Inr xs"
    and "\<exists>w \<in> set xs. matchesWatcher w (entity_id (data ev)) (state old) (state new)"
    and "resolveSessionKey cfg () = None \<or> resolveSessionKey cfg () = Some []"
  shows "handleStateChanged cfg ev fs =
           ([Log Warn (''[ha-watcher] watcher matched for '' @ entity_id (data ev)
                       @ '' but no sessionKey available'')], fs, None)
         \<and> loadWatchers (fst (snd (handleStateChanged cfg ev fs)))
              (WatcherServiceConfig.stateDir cfg) = Inr xs"
  using handleStateChanged_no_key [OF assms] assms(3) by simp

theorem no_session_key_frame_witness:
  "resolveSessionKey cfg_without_key () = None
   \<and> matchesWatcher watcher_to_on ''light.bedroom'' ''off'' ''on''
   \<and> Watcher.oneShot watcher_to_on
   \<and> handleStateChanged cfg_without_key bedroom_turns_on (fs_watchers [watcher_to_on, watcher_any])
       = ([Log Warn ''[ha-watcher] watcher matched for light.bedroom but no sessionKey available''],
          fs_watchers [watcher_to_on, watcher_any], None)
   \<and> loadWatchers (fst (snd (handleStateChanged cfg_without_key bedroom_turns_on
          (fs_watchers [watcher_to_on, watcher_any])))) ''/state''
       = Inr [watcher_to_on, watcher_any]"
proof -
  have m: "matchesWatcher watcher_to_on ''light.bedroom'' ''off'' ''on''"
    by (simp add: matchesWatcher_def watcher_to_on_def)
  have 1: "old_state (data bedroom_turns_on) = Some snapshot_off"
    and 2: "new_state (data bedroom_turns_on) = Some snapshot_on"
    and 3: "loadWatchers (fs_watchers [watcher_to_on, watcher_any])
              (WatcherServiceConfig.stateDir cfg_without_key) = Inr [watcher_to_on, watcher_any]"
    and 5: "resolveSessionKey cfg_without_key () = None \<or> resolveSessionKey cfg_without_key () = Some []"
    by (simp_all add: bedroom_turns_on_def cfg_without_key_def load_fs_watchers)
  have 4: "\<exists>w \<in> set [watcher_to_on, watcher_any].
             matchesWatcher w (entity_id (data bedroom_turns_on)) (state snapshot_off) (state snapshot_on)"
    using m by (simp add: bedroom_turns_on_def snapshot_off_def snapshot_on_def)
  have e: "entity_id (data bedroom_turns_on) = ''light.bedroom''"
    and sd: "WatcherServiceConfig.stateDir cfg_without_key = ''/state''"
    and k: "resolveSessionKey cfg_without_key () = None"
    and o: "Watcher.oneShot watcher_to_on"
    by (simp_all add: bedroom_turns_on_def cfg_without_key_def watcher_to_on_def)
  from no_session_key_frame [OF 1 2 3 4 5] m k o
  show ?thesis
    by (simp add: e sd load_fs_watchers)
qed

text \<open>
  C2, as stated, fails twice. Removal goes by id: with a one-shot listener that matches
  and a recurring listener of another entity that carries the same id, the handler of the
  subprocess variant removes both, although only the first is a matched one-shot rule.
  And the handler of the session-injection variant, when no session key is resolved,
  removes nothing, although a matched one-shot rule is stored.
\<close>

theorem retirement_counterexample:
  "loadListeners (fst (snd (handleStateChanged_listener cfg_listener (\<lambda>cmd. None)
       bedroom_turns_on (fs_listeners [listener_to_on, listener_kitchen_same_id])))) ''/state''
     = Inr []
   \<and> retire_stated (\<lambda>l. matchesListener l ''light.bedroom'' ''off'' ''on'') Listener.oneShot
        [listener_to_on, listener_kitchen_same_id] = [listener_kitchen_same_id]
   \<and> loadWatchers (fst (snd (handleStateChanged cfg_without_key bedroom_turns_on
       (fs_watchers [watcher_to_on, watcher_any])))) ''/state''
     = Inr [watcher_to_on, watcher_any]
   \<and> retire_stated (\<lambda>w. matchesWatcher w ''light.bedroom'' ''off'' ''on'') Watcher.oneShot
        [watcher_to_on, watcher_any] = [watcher_any]"
proof -
  have 5: "loadListeners (fs_listeners [listener_to_on, listener_kitchen_same_id])
             (ListenerServiceConfig.stateDir cfg_listener)
           = Inr [listener_to_on, listener_kitchen_same_id]"
    by (simp add: example_configs load_fs_listeners)
  have 6: "\<exists>l \<in> set [listener_to_on, listener_kitchen_same_id].
             matchesListener l (entity_id (data bedroom_turns_on)) (state snapshot_off) (state snapshot_on)"
    by (simp add: example_event example_listeners)
  have 7: "resolveListenersPath (ListenerServiceConfig.stateDir cfg_listener)
             \<notin> unwritable (fs_listeners [listener_to_on, listener_kitchen_same_id])"
    by (simp add: example_configs example_writable)
  have a: "loadListeners (fst (snd (handleStateChanged_listener cfg_listener (\<lambda>cmd. None)
       bedroom_turns_on (fs_listeners [listener_to_on, listener_kitchen_same_id])))) ''/state''
     = Inr []"
    using handleStateChanged_listener_retires_list [OF example_event(1,2) 5 6 7, of "\<lambda>cmd. None"]
    by (simp add: Let_def example_event example_configs example_listeners)
  have 1: "loadWatchers (fs_watchers [watcher_to_on, watcher_any])
             (WatcherServiceConfig.stateDir cfg_without_key) = Inr [watcher_to_on, watcher_any]"
    by (simp add: example_configs load_fs_watchers)
  have 2: "\<exists>w \<in> set [watcher_to_on, watcher_any].
             matchesWatcher w (entity_id (data bedroom_turns_on)) (state snapshot_off) (state snapshot_on)"
    by (simp add: example_event example_watchers)
  have b: "loadWatchers (fst (snd (handleStateChanged cfg_without_key bedroom_turns_on
       (fs_watchers [watcher_to_on, watcher_any])))) ''/state''
     = Inr [watcher_to_on, watcher_any]"
    using handleStateChanged_no_key [OF example_event(1,2) 1 2]
    by (simp add: example_configs load_fs_watchers)
  from a b show ?thesis
    by (simp add: retire_stated_def example_watchers example_listeners)
qed

text \<open>
  C2, amended: for every loaded rule set and every event that matches at least one rule,
  when the write of the store succeeds (and, in the session-injection variant, a
  non-empty session key is resolved), the handler completes without error and removes
  from the loaded set exactly the rules whose id is the id of a matched one-shot rule;
  these are exactly the matched one-shot rules when the ids of the loaded rules are
  pairwise distinct. Every other loaded rule stays stored, unchanged and in order. The
  store is written by exactly one whole-file overwrite when a matched rule is one-shot,
  and not written otherwise.
\<close>

theorem one_shot_retirement:
  fixes exec :: "string \<Rightarrow> string option"
  assumes W: "old_state (data ev) = Some old" "new_state (data ev) = Some new"
      "loadWatchers fs (WatcherServiceConfig.stateDir cfg) = Inr xs"
      "\<exists>w \<in> set xs. matchesWatcher w (entity_id (data ev)) (state old) (state new)"
      "resolveSessionKey cfg () = Some key" "key \<noteq> []"
      "resolveWatchersPath (WatcherServiceConfig.stateDir cfg) \<notin> unwritable fs"
    and L: "old_state (data ev') = Some old'" "new_state (data ev') = Some new'"
      "loadListeners fs' (ListenerServiceConfig.stateDir cfg') = Inr ys"
      "\<exists>l \<in> set ys. matchesListener l (entity_id (data ev')) (state old') (state new')"
      "resolveListenersPath (ListenerServiceConfig.stateDir cfg') \<notin> unwritable fs'"
  shows
    "(let matched = (\<lambda>w. matchesWatcher w (entity_id (data ev)) (state old) (state new));
          fired = map Watcher.id' (filter (\<lambda>w. matched w \<and> Watcher.oneShot w) xs);
          remaining = filter (\<lambda>w. Watcher.id' w \<notin> set fired) xs;
          result = handleStateChanged cfg ev fs
      in snd (snd result) = None
         \<and> loadWatchers (fst (snd result)) (WatcherServiceConfig.stateDir cfg) = Inr remaining
         \<and> (distinct (map Watcher.id' xs) \<longrightarrow> remaining = retire_stated matched Watcher.oneShot xs)
         \<and> journal (fst (snd result)) = journal fs @
              (if fired = [] then []
               else [(resolveWatchersPath (WatcherServiceConfig.stateDir cfg),
                      JSON_stringify remaining)]))
     \<and> (let matched = (\<lambda>l. matchesListener l (entity_id (data ev')) (state old') (state new'));
          fired = map Listener.id' (filter (\<lambda>l. matched l \<and> Listener.oneShot l) ys);
          remaining = filter (\<lambda>l. Listener.id' l \<notin> set fired) ys;
          result = handleStateChanged_listener cfg' exec ev' fs'
      in snd (snd result) = None
         \<and> loadListeners (fst (snd result)) (ListenerServiceConfig.stateDir cfg') = Inr remaining
         \<and> (distinct (map Listener.id' ys) \<longrightarrow> remaining = retire_stated matched Listener.oneShot ys)
         \<and> journal (fst (snd result)) = journal fs' @
              (if fired = [] then []
               else [(resolveListenersPath (ListenerServiceConfig.stateDir cfg'),
                      JSON_stringify remaining)]))"
  using handleStateChanged_retires_list [OF W] handleStateChanged_listener_retires_list [OF L]
  by blast

theorem one_shot_retirement_witness:
  "loadWatchers (fst (snd (handleStateChanged cfg_with_key bedroom_turns_on
       (fs_watchers [watcher_to_on, watcher_any])))) ''/state'' = Inr [watcher_any]
   \<and> journal (fst (snd (handleStateChanged cfg_with_key bedroom_turns_on
       (fs_watchers [watcher_to_on, watcher_any]))))
       = [(''/state/plugins/homeassistant/watchers.json'', JSON_stringify [watcher_any])]
   \<and> loadListeners (fst (snd (handleStateChanged_listener cfg_listener (\<lambda>cmd. None)
       bedroom_turns_on (fs_listeners [listener_to_on, listener_any])))) ''/state''
       = Inr [listener_any]
   \<and> journal (fst (snd (handleStateChanged_listener cfg_listener (\<lambda>cmd. None)
       bedroom_turns_on (fs_listeners [listener_to_on, listener_any]))))
       = [(''/state/plugins/homeassistant/listeners.json'', JSON_stringify [listener_any])]"
proof -
  have 1: "loadWatchers (fs_watchers [watcher_to_on, watcher_any])
             (WatcherServiceConfig.stateDir cfg_with_key) = Inr [watcher_to_on, watcher_any]"
    by (simp add: example_configs load_fs_watchers)
  have 2: "\<exists>w \<in> set [watcher_to_on, watcher_any].
             matchesWatcher w (entity_id (data bedroom_turns_on)) (state snapshot_off) (state snapshot_on)"
    by (simp add: example_event example_watchers)
  have 3: "''agent:main'' \<noteq> []" by simp
  have 4: "resolveWatchersPath (WatcherServiceConfig.stateDir cfg_with_key)
             \<notin> unwritable (fs_watchers [watcher_to_on, watcher_any])"
    by (simp add: example_configs example_writable)
  have 5: "loadListeners (fs_listeners [listener_to_on, listener_any])
             (ListenerServiceConfig.stateDir cfg_listener) = Inr [listener_to_on, listener_any]"
    by (simp add: example_configs load_fs_listeners)
  have 6: "\<exists>l \<in> set [listener_to_on, listener_any].
             matchesListener l (entity_id (data bedroom_turns_on)) (state snapshot_off) (state snapshot_on)"
    by (simp add: example_event example_listeners)
  have 7: "resolveListenersPath (ListenerServiceConfig.stateDir cfg_listener)
             \<notin> unwritable (fs_listeners [listener_to_on, listener_any])"
    by (simp add: example_configs example_writable)
  from one_shot_retirement [OF example_event(1,2) 1 2 example_configs(4) 3 4
         example_event(1,2) 5 6 7, of "\<lambda>cmd. None"]
  show ?thesis
    by (simp add: Let_def example_event example_configs example_watchers example_listeners
        example_writable resolveWatchersPath_state resolveListenersPath_state)
qed

section \<open>Properties of \<^verbatim>\<open>add\<close>\<close>


lemma addWatcher_unwritable:
  "resolveWatchersPath sd \<in> unwritable fs \<Longrightarrow> addWatcher fs sd input uuid now = Inl EACCES"
  using loadWatchers_total [of fs sd]
  by (auto simp add: addWatcher_def Let_def saveWatchers_unwritable)


lemma addListener_unwritable:
  "resolveListenersPath sd \<in> unwritable fs \<Longrightarrow> addListener fs sd input uuid now = Inl EACCES"
  using loadListeners_total [of fs sd]
  by (auto simp add: addListener_def Let_def saveListeners_unwritable)


lemma example_platform:
  "is_UUID uuid_1" "is_ISO_timestamp now_1" "take 8 uuid_1 = ''3f2b8c1e''"
  "is_UUID uuid_2" "take 8 uuid_2 = ''3f2b8c1e''" "uuid_1 \<noteq> uuid_2"
  by (simp_all add: is_UUID_def is_ISO_timestamp_def is_hex_def uuid_1_def uuid_2_def now_1_def)



lemmas store_evaluation =
  addWatcher_def loadWatchers_cases saveWatchers_def resolveWatchersPath_state
  addListener_def loadListeners_cases saveListeners_def resolveListenersPath_state
  mkdir_writeFile_def JSON_stringify_def Let_def fs_nothing_def
  uuid_1_def uuid_2_def now_1_def
  input_kitchen_def input_door_def input_kitchen_listener_def input_door_listener_def




section \<open>Ids that repeat\<close>

text \<open>
  C7: the ids of the stored rules are not pairwise distinct in every reachable store
  state. Start from the empty store and call \<^verbatim>\<open>add\<close> twice; let \<^verbatim>\<open>randomUUID\<close> return
  two different UUIDs with the same first eight characters. The second \<^verbatim>\<open>add\<close> assigns
  an id that is already in the store, in both variants: \<^verbatim>\<open>add\<close> takes the first eight
  characters of the UUID and never compares them with the stored ids.
\<close>

theorem add_stores_duplicate_id:
  "is_UUID uuid_1 \<and> is_UUID uuid_2 \<and> uuid_1 \<noteq> uuid_2
   \<and> loadWatchers (apply_watcher_ops ''/state'' colliding_ops fs_nothing) ''/state''
       = Inr [watcher_kitchen, watcher_door_same_id]
   \<and> \<not> distinct (map Watcher.id' [watcher_kitchen, watcher_door_same_id])
   \<and> loadListeners (apply_listener_ops ''/state'' colliding_listener_ops fs_nothing) ''/state''
       = Inr [listener_kitchen, listener_door_same_id]
   \<and> \<not> distinct (map Listener.id' [listener_kitchen, listener_door_same_id])"
proof -
  have w: "loadWatchers (apply_watcher_ops ''/state'' colliding_ops fs_nothing) ''/state''
       = Inr [watcher_kitchen, watcher_door_same_id]"
    by (simp add: colliding_ops_def store_evaluation watcher_kitchen_def watcher_door_same_id_def)
  have l: "loadListeners (apply_listener_ops ''/state'' colliding_listener_ops fs_nothing) ''/state''
       = Inr [listener_kitchen, listener_door_same_id]"
    by (simp add: colliding_listener_ops_def store_evaluation listener_kitchen_def
        listener_door_same_id_def)
  have d: "\<not> distinct (map Watcher.id' [watcher_kitchen, watcher_door_same_id])"
    "\<not> distinct (map Listener.id' [listener_kitchen, listener_door_same_id])"
    by (simp_all add: watcher_kitchen_def watcher_door_same_id_def listener_kitchen_def
        listener_door_same_id_def)
  show ?thesis
    by (rule conjI [OF example_platform(1) conjI [OF example_platform(4)
          conjI [OF example_platform(6) conjI [OF w conjI [OF d(1) conjI [OF l d(2)]]]]]])
qed

section \<open>Properties of the event session\<close>

lemma scheduled_delays_append [simp]:
  "scheduled_delays (xs @ ys) = scheduled_delays xs @ scheduled_delays ys"
  by (induction xs rule: scheduled_delays.induct) simp_all

lemma connection_attempts_append [simp]:
  "connection_attempts (xs @ ys) = connection_attempts xs @ connection_attempts ys"
  by (induction xs rule: connection_attempts.induct) simp_all

lemma deliver_watchers_quiet:
  "scheduled_delays (deliver_watchers cfg k f e old new ms) = []"
  "connection_attempts (deliver_watchers cfg k f e old new ms) = []"
  by (induction ms) (simp_all add: Let_def split: option.splits)

lemma handleStateChanged_quiet:
  "scheduled_delays (fst (handleStateChanged cfg ev fs)) = []"
  "connection_attempts (fst (handleStateChanged cfg ev fs)) = []"
  by (simp_all add: handleStateChanged_def Let_def deliver_watchers_quiet
      split: option.splits sum.splits)

lemmas session_defs =
  step_def start_def stop_def connect_def scheduleReconnect_def clearTimers_def ws_close_def
  onopen_def onclose_def onerror_def onmessage_def reconnect_timeout_def send_def
  subscribeEvents_def startPing_def ping_interval_def emit_def Let_def

lemma handleStateChanged_quiet_dest:
  assumes "handleStateChanged cfg ev fs = (did, fs', raised)"
  shows "scheduled_delays did = []" "connection_attempts did = []"
  using handleStateChanged_quiet [of cfg ev fs] assms by simp_all

lemma handleMessage_schedule:
  "scheduled_delays (effects (fst (handleMessage cfg msg sf))) = scheduled_delays (effects (fst sf))"
  "connection_attempts (effects (fst (handleMessage cfg msg sf))) = connection_attempts (effects (fst sf))"
  "reconnectDelay (fst (handleMessage cfg msg sf)) = reconnectDelay (fst sf)"
  "stopped (fst sf) \<Longrightarrow> stopped (fst (handleMessage cfg msg sf))"
  by (cases msg;
      auto simp add: handleMessage_def session_defs handleStateChanged_quiet_dest
        split: option.splits readyState.splits prod.splits)+


lemma step_schedule:
  assumes "i \<noteq> Socket_open"
  shows "(scheduled_delays (effects (fst (step cfg i sf))) = scheduled_delays (effects (fst sf))
          \<and> reconnectDelay (fst (step cfg i sf)) = reconnectDelay (fst sf))
       \<or> (scheduled_delays (effects (fst (step cfg i sf)))
            = scheduled_delays (effects (fst sf)) @ [reconnectDelay (fst sf)]
          \<and> reconnectDelay (fst (step cfg i sf)) = min (reconnectDelay (fst sf) * 2) 30000)"
proof (cases i)
  case (Socket_message received)
  then show ?thesis
    by (cases received) (simp_all add: step_def onmessage_def emit_def handleMessage_schedule)
qed (use assms in \<open>auto simp add: session_defs split: option.splits readyState.splits\<close>)

lemma step_stopped:
  assumes "stopped (fst sf)" "\<not> is_Start i"
  shows "stopped (fst (step cfg i sf))"
    and "scheduled_delays (effects (fst (step cfg i sf))) = scheduled_delays (effects (fst sf))"
    and "connection_attempts (effects (fst (step cfg i sf))) = connection_attempts (effects (fst sf))"
proof -
  show "stopped (fst (step cfg i sf))"
  proof (cases i)
    case (Socket_message received)
    with assms show ?thesis
      by (cases received) (simp_all add: step_def onmessage_def emit_def handleMessage_schedule)
  qed (use assms in \<open>auto simp add: session_defs split: option.splits readyState.splits\<close>)
  show "scheduled_delays (effects (fst (step cfg i sf))) = scheduled_delays (effects (fst sf))"
  proof (cases i)
    case (Socket_message received)
    with assms show ?thesis
      by (cases received) (simp_all add: step_def onmessage_def emit_def handleMessage_schedule)
  qed (use assms in \<open>auto simp add: session_defs split: option.splits readyState.splits\<close>)
  show "connection_attempts (effects (fst (step cfg i sf))) = connection_attempts (effects (fst sf))"
  proof (cases i)
    case (Socket_message received)
    with assms show ?thesis
      by (cases received) (simp_all add: step_def onmessage_def emit_def handleMessage_schedule)
  qed (use assms in \<open>auto simp add: session_defs split: option.splits readyState.splits\<close>)
qed

lemma run_stopped:
  assumes "stopped (fst sf)" "list_all (\<lambda>i. \<not> is_Start i) inputs"
  shows "stopped (fst (run cfg inputs sf))
     \<and> scheduled_delays (effects (fst (run cfg inputs sf))) = scheduled_delays (effects (fst sf))
     \<and> connection_attempts (effects (fst (run cfg inputs sf))) = connection_attempts (effects (fst sf))"
  using assms
proof (induction inputs arbitrary: sf)
  case Nil
  then show ?case by simp
next
  case (Cons i inputs)
  from Cons.prems have i: "\<not> is_Start i" and rest: "list_all (\<lambda>i. \<not> is_Start i) inputs"
    by simp_all
  note s = step_stopped [OF Cons.prems(1) i, of cfg]
  from Cons.IH [OF s(1) rest] s(2,3) show ?case
    by simp
qed

lemma backoff_stated_Suc: "min (backoff_stated m * 2) 30000 = backoff_stated (Suc m)"
  by (simp add: backoff_stated_def min_def)

lemma run_backoff:
  assumes "Socket_open \<notin> set inputs"
    and "scheduled_delays (effects (fst sf)) = base @ map backoff_stated [0..<m]"
    and "reconnectDelay (fst sf) = backoff_stated m"
  shows "\<exists>n. scheduled_delays (effects (fst (run cfg inputs sf))) = base @ map backoff_stated [0..<n]
             \<and> reconnectDelay (fst (run cfg inputs sf)) = backoff_stated n"
  using assms
proof (induction inputs arbitrary: sf m)
  case Nil
  then show ?case by auto
next
  case (Cons i inputs)
  from Cons.prems(1) have i: "i \<noteq> Socket_open" and rest: "Socket_open \<notin> set inputs"
    by auto
  from step_schedule [OF i, of cfg sf]
  consider
    (same) "scheduled_delays (effects (fst (step cfg i sf))) = scheduled_delays (effects (fst sf))"
       "reconnectDelay (fst (step cfg i sf)) = reconnectDelay (fst sf)"
  | (more) "scheduled_delays (effects (fst (step cfg i sf)))
            = scheduled_delays (effects (fst sf)) @ [reconnectDelay (fst sf)]"
       "reconnectDelay (fst (step cfg i sf)) = min (reconnectDelay (fst sf) * 2) 30000"
    by blast
  then show ?case
  proof cases
    case same
    with Cons.IH [OF rest, of "step cfg i sf" m] Cons.prems(2,3) show ?thesis
      by simp
  next
    case more
    with Cons.prems(2,3)
    have "scheduled_delays (effects (fst (step cfg i sf))) = base @ map backoff_stated [0..<Suc m]"
      and "reconnectDelay (fst (step cfg i sf)) = backoff_stated (Suc m)"
      by (simp_all add: backoff_stated_Suc)
    from Cons.IH [OF rest this] show ?thesis
      by simp
  qed
qed


lemma run_append: "run cfg (xs @ ys) sf = run cfg ys (run cfg xs sf)"
  by (induction xs arbitrary: sf) simp_all

lemma retry_fails:
  assumes "\<not> stopped (fst sf)" "reconnectTimer (fst sf) \<noteq> None"
  shows "\<not> stopped (fst (run cfg (Reconnect_timeout c # after_failed_attempt c) sf))"
    and "reconnectTimer (fst (run cfg (Reconnect_timeout c # after_failed_attempt c) sf)) \<noteq> None"
    and "length (scheduled_delays (effects (fst (run cfg (Reconnect_timeout c # after_failed_attempt c) sf))))
           = Suc (length (scheduled_delays (effects (fst sf))))"
  using assms
  by (cases c; auto simp add: session_defs split: option.splits)+

lemma start_fails:
  shows "\<not> stopped (fst (run cfg (Start c # after_failed_attempt c) sf))"
    and "reconnectTimer (fst (run cfg (Start c # after_failed_attempt c) sf)) \<noteq> None"
    and "length (scheduled_delays (effects (fst (run cfg (Start c # after_failed_attempt c) sf))))
           = Suc (length (scheduled_delays (effects (fst sf))))"
  by (cases c; auto simp add: session_defs split: option.splits)+

lemma retries_count:
  assumes "\<not> stopped (fst sf)" "reconnectTimer (fst sf) \<noteq> None"
  shows "length (scheduled_delays (effects (fst (run cfg (retries cs) sf))))
           = length (scheduled_delays (effects (fst sf))) + length cs"
  using assms
proof (induction cs arbitrary: sf)
  case Nil
  then show ?case by simp
next
  case (Cons c cs)
  note r = retry_fails [OF Cons.prems, of cfg c]
  have "run cfg (retries (c # cs)) sf
          = run cfg (retries cs) (run cfg (Reconnect_timeout c # after_failed_attempt c) sf)"
    using run_append [of cfg "Reconnect_timeout c # after_failed_attempt c" "retries cs" sf]
    by simp
  with Cons.IH [OF r(1,2)] r(3) show ?case
    by simp
qed

lemma failed_attempts_count:
  "length (scheduled_delays (effects (fst (run cfg (failed_attempts c cs) sf))))
     = length (scheduled_delays (effects (fst sf))) + Suc (length cs)"
proof -
  note s = start_fails [of cfg c sf]
  have "run cfg (failed_attempts c cs) sf
          = run cfg (retries cs) (run cfg (Start c # after_failed_attempt c) sf)"
    using run_append [of cfg "Start c # after_failed_attempt c" "retries cs" sf]
    by (simp add: failed_attempts_def)
  with retries_count [OF s(1,2), of cfg cs] s(3) show ?thesis
    by simp
qed

lemma no_open_in_failed_attempts: "Socket_open \<notin> set (failed_attempts c cs)"
proof -
  have a: "Socket_open \<notin> set (after_failed_attempt x)" for x
    by (cases x) simp_all
  have "Socket_open \<notin> set (retries cs)"
    by (induction cs) (simp_all add: a)
  with a show ?thesis
    by (simp add: failed_attempts_def)
qed

lemma run_backoff_from_new:
  assumes "Socket_open \<notin> set inputs"
  shows "scheduled_delays (effects (fst (run cfg inputs (new_HAWatcherService, fs))))
     = map backoff_stated
         [0..<length (scheduled_delays (effects (fst (run cfg inputs (new_HAWatcherService, fs)))))]"
proof -
  have "scheduled_delays (effects (fst (new_HAWatcherService, fs))) = [] @ map backoff_stated [0..<0]"
    and "reconnectDelay (fst (new_HAWatcherService, fs)) = backoff_stated 0"
    by (simp_all add: new_HAWatcherService_def backoff_stated_def)
  from run_backoff [OF assms this, of cfg]
  obtain n where
    "scheduled_delays (effects (fst (run cfg inputs (new_HAWatcherService, fs))))
       = map backoff_stated [0..<n]"
    by auto
  then show ?thesis by simp
qed

lemma run_backoff_after_open:
  assumes "Socket_open \<notin> set inputs"
  shows "newly_scheduled (fst sf) (fst (run cfg (Socket_open # inputs) sf))
     = map backoff_stated
         [0..<length (newly_scheduled (fst sf) (fst (run cfg (Socket_open # inputs) sf)))]"
proof -
  have "scheduled_delays (effects (fst (step cfg Socket_open sf)))
          = scheduled_delays (effects (fst sf)) @ map backoff_stated [0..<0]"
    and "reconnectDelay (fst (step cfg Socket_open sf)) = backoff_stated 0"
    by (simp_all add: session_defs backoff_stated_def)
  from run_backoff [OF assms this, of cfg]
  obtain n where
    "scheduled_delays (effects (fst (run cfg (Socket_open # inputs) sf)))
       = scheduled_delays (effects (fst sf)) @ map backoff_stated [0..<n]"
    by auto
  then show ?thesis by (simp add: newly_scheduled_def)
qed

lemma close_after_open:
  assumes "\<not> stopped (fst sf)"
  shows "\<not> stopped (fst (run cfg [Socket_open, Socket_close] sf))"
    and "reconnectTimer (fst (run cfg [Socket_open, Socket_close] sf)) \<noteq> None"
    and "length (scheduled_delays (effects (fst (run cfg [Socket_open, Socket_close] sf))))
           = Suc (length (scheduled_delays (effects (fst sf))))"
  using assms
  by (auto simp add: session_defs split: option.splits)

lemma lost_connection_count:
  assumes "\<not> stopped (fst sf)"
  shows "length (newly_scheduled (fst sf)
                   (fst (run cfg (Socket_open # Socket_close # retries cs) sf)))
           = Suc (length cs)"
proof -
  note c = close_after_open [OF assms, of cfg]
  have "run cfg (Socket_open # Socket_close # retries cs) sf
          = run cfg (retries cs) (run cfg [Socket_open, Socket_close] sf)"
    using run_append [of cfg "[Socket_open, Socket_close]" "retries cs" sf]
    by simp
  with retries_count [OF c(1,2), of cfg cs] c(3) show ?thesis
    by (simp add: newly_scheduled_def)
qed

lemma no_open_in_retries: "Socket_open \<notin> set (Socket_close # retries cs)"
proof -
  have a: "Socket_open \<notin> set (after_failed_attempt x)" for x
    by (cases x) simp_all
  have "Socket_open \<notin> set (retries cs)"
    by (induction cs) (simp_all add: a)
  then show ?thesis by simp
qed

lemma backoff_stated_bounds:
  "backoff_stated k \<le> backoff_stated (Suc k)" "backoff_stated k \<le> 30000"
  by (simp_all add: backoff_stated_def min_def)

text \<open>
  C3: a run of \<open>n\<close> consecutive failed connection attempts of a new service, with no
  successful open in between, schedules exactly \<open>n\<close> reconnects, and their delays are
  the stated sequence 1, 2, 4, 8, 16, 30, 30, ... seconds: the delay number \<open>k\<close>
  (counted from 0) is \<open>1000 * min (2 ^ k) 30\<close> milliseconds. More generally, in every run of
  a new service without a socket open the delays scheduled so far are an initial segment
  of that sequence, which is non-decreasing and capped at 30 seconds. A socket open
  resets the delay to 1 second: when the connection is lost after it and \<open>n - 1\<close>
  attempts to reconnect fail, the \<open>n\<close> delays scheduled since the open are again 1, 2,
  4, ... seconds; and whatever follows the open, short of another open, the delays
  scheduled after it are an initial segment of the sequence.
\<close>

theorem reconnect_backoff:
  "scheduled_delays (effects (fst (run cfg (failed_attempts c cs) (new_HAWatcherService, fs))))
     = map backoff_stated [0..<Suc (length cs)]
   \<and> (Socket_open \<notin> set inputs \<longrightarrow>
        scheduled_delays (effects (fst (run cfg inputs (new_HAWatcherService, fs))))
        = map backoff_stated
            [0..<length (scheduled_delays (effects (fst (run cfg inputs (new_HAWatcherService, fs)))))])
   \<and> backoff_stated k \<le> backoff_stated (Suc k) \<and> backoff_stated k \<le> 30000
   \<and> reconnectDelay (fst (step cfg Socket_open sf)) = 1000
   \<and> (\<not> stopped (fst sf) \<longrightarrow>
        newly_scheduled (fst sf) (fst (run cfg (Socket_open # Socket_close # retries cs) sf))
        = map backoff_stated [0..<Suc (length cs)])
   \<and> (Socket_open \<notin> set inputs \<longrightarrow>
        newly_scheduled (fst sf) (fst (run cfg (Socket_open # inputs) sf))
        = map backoff_stated
            [0..<length (newly_scheduled (fst sf) (fst (run cfg (Socket_open # inputs) sf)))])"
proof -
  have "scheduled_delays (effects (fst (run cfg (failed_attempts c cs) (new_HAWatcherService, fs))))
     = map backoff_stated [0..<Suc (length cs)]"
    using run_backoff_from_new [OF no_open_in_failed_attempts, of cfg c cs fs]
      failed_attempts_count [of cfg c cs "(new_HAWatcherService, fs)"]
    by (simp add: new_HAWatcherService_def)
  moreover have "reconnectDelay (fst (step cfg Socket_open sf)) = 1000"
    by (simp add: session_defs)
  moreover have "newly_scheduled (fst sf) (fst (run cfg (Socket_open # Socket_close # retries cs) sf))
        = map backoff_stated [0..<Suc (length cs)]" if "\<not> stopped (fst sf)"
    using run_backoff_after_open [OF no_open_in_retries, of sf cfg cs]
      lost_connection_count [OF that, of cfg cs]
    by simp
  ultimately show ?thesis
    using run_backoff_from_new [of inputs cfg fs] run_backoff_after_open [of inputs sf cfg]
      backoff_stated_bounds [of k]
    by (intro conjI impI) assumption+
qed

lemma stated_sequence:
  "map backoff_stated [0..<7] = [1000, 2000, 4000, 8000, 16000, 30000, 30000]"
  by (simp add: backoff_stated_def upt_rec)

lemma seven_failures_length:
  "seven_failures = failed_attempts None [None, Some ''Error: connect refused'', None, None, None, None]"
  "Suc (length [None, Some ''Error: connect refused'', None, None, None, None :: string option]) = 7"
  by (simp_all add: seven_failures_def)

lemma not_stopped_after_seven_failures: "\<not> stopped (fst after_seven_failures)"
  unfolding after_seven_failures_def seven_failures_def failed_attempts_def
  by (simp add: session_defs new_HAWatcherService_def)

theorem reconnect_backoff_witness:
  "scheduled_delays (effects (fst after_seven_failures))
     = [1000, 2000, 4000, 8000, 16000, 30000, 30000]
   \<and> \<not> stopped (fst after_seven_failures)
   \<and> newly_scheduled (fst after_seven_failures)
        (fst (run cfg_with_key
                (Socket_open # Socket_close
                 # retries [None, Some ''Error: connect refused'', None, None, None, None])
                after_seven_failures))
     = [1000, 2000, 4000, 8000, 16000, 30000, 30000]
   \<and> Socket_open \<notin> set [Socket_close, Reconnect_timeout None, Socket_close]
   \<and> newly_scheduled (fst after_seven_failures)
        (fst (run cfg_with_key (Socket_open # [Socket_close, Reconnect_timeout None, Socket_close])
                after_seven_failures))
     = map backoff_stated
         [0..<length (newly_scheduled (fst after_seven_failures)
            (fst (run cfg_with_key
                    (Socket_open # [Socket_close, Reconnect_timeout None, Socket_close])
                    after_seven_failures)))]"
proof -
  note t = reconnect_backoff [of cfg_with_key None
      "[None, Some ''Error: connect refused'', None, None, None, None]" fs_nothing
      "[Socket_close, Reconnect_timeout None, Socket_close]" 5 after_seven_failures]
  have n: "Socket_open \<notin> set [Socket_close, Reconnect_timeout None, Socket_close]"
    by simp
  from t have 1: "scheduled_delays (effects (fst after_seven_failures))
     = [1000, 2000, 4000, 8000, 16000, 30000, 30000]"
    unfolding after_seven_failures_def seven_failures_length stated_sequence [symmetric]
    by (rule conjunct1)
  from t not_stopped_after_seven_failures
  have 2: "newly_scheduled (fst after_seven_failures)
        (fst (run cfg_with_key
                (Socket_open # Socket_close
                 # retries [None, Some ''Error: connect refused'', None, None, None, None])
                after_seven_failures))
     = [1000, 2000, 4000, 8000, 16000, 30000, 30000]"
    unfolding seven_failures_length stated_sequence [symmetric]
    by (elim conjE) (erule mp, assumption)
  from t n
  have 3: "newly_scheduled (fst after_seven_failures)
        (fst (run cfg_with_key (Socket_open # [Socket_close, Reconnect_timeout None, Socket_close])
                after_seven_failures))
     = map backoff_stated
         [0..<length (newly_scheduled (fst after_seven_failures)
            (fst (run cfg_with_key
                    (Socket_open # [Socket_close, Reconnect_timeout None, Socket_close])
                    after_seven_failures)))]"
    by (elim conjE) (erule mp, assumption)
  show ?thesis
    by (rule conjI [OF 1 conjI [OF not_stopped_after_seven_failures conjI [OF 2 conjI [OF n 3]]]])
qed

text \<open>
  C4: when an \<^verbatim>\<open>auth_invalid\<close> message is received, the session marks itself stopped
  and closes the socket (if it holds one); and whatever happens afterwards, short of an
  explicit \<^verbatim>\<open>start()\<close> (socket closes, socket errors, further messages, the timers
  firing, \<^verbatim>\<open>stop()\<close>), the session stays stopped, schedules no reconnect and makes no
  connection attempt.
\<close>

theorem auth_invalid_is_final:
  assumes "list_all (\<lambda>i. \<not> is_Start i) inputs"
  shows "stopped (fst (step cfg (Socket_message (Inr (Auth_invalid m))) sf))
     \<and> effects (fst (step cfg (Socket_message (Inr (Auth_invalid m))) sf))
         = effects (fst sf) @ [Log Err (''[ha-watcher] auth failed: '' @ m)]
           @ (if ws (fst sf) = None then [] else [WsClose])
     \<and> stopped (fst (run cfg (Socket_message (Inr (Auth_invalid m)) # inputs) sf))
     \<and> scheduled_delays (effects (fst (run cfg (Socket_message (Inr (Auth_invalid m)) # inputs) sf)))
         = scheduled_delays (effects (fst sf))
     \<and> connection_attempts (effects (fst (run cfg (Socket_message (Inr (Auth_invalid m)) # inputs) sf)))
         = connection_attempts (effects (fst sf))"
proof -
  let ?sf1 = "step cfg (Socket_message (Inr (Auth_invalid m))) sf"
  have 1: "stopped (fst ?sf1)"
    and 2: "effects (fst ?sf1)
         = effects (fst sf) @ [Log Err (''[ha-watcher] auth failed: '' @ m)]
           @ (if ws (fst sf) = None then [] else [WsClose])"
    by (auto simp add: handleMessage_def session_defs split: option.splits)
  from 2 have 3: "scheduled_delays (effects (fst ?sf1)) = scheduled_delays (effects (fst sf))"
    and 4: "connection_attempts (effects (fst ?sf1)) = connection_attempts (effects (fst sf))"
    by simp_all
  from run_stopped [OF 1 assms, of cfg] 1 2 3 4 show ?thesis
    by simp
qed

lemma connected_evaluated:
  "scheduled_delays (effects (fst connected)) = []"
  "connection_attempts (effects (fst connected)) = [''ws://ha.local:8123/api/websocket'']"
  "ws (fst connected) = Some OPEN"
  by (simp_all add: connected_def session_defs handleMessage_def new_HAWatcherService_def
      cfg_with_key_def strip_trailing_slash_def http_to_ws_def)

theorem auth_invalid_is_final_witness:
  "list_all (\<lambda>i. \<not> is_Start i) after_auth_invalid
   \<and> effects (fst (step cfg_with_key (Socket_message (Inr (Auth_invalid ''bad token''))) connected))
       = effects (fst connected) @ [Log Err ''[ha-watcher] auth failed: bad token'', WsClose]
   \<and> stopped (fst (run cfg_with_key
         (Socket_message (Inr (Auth_invalid ''bad token'')) # after_auth_invalid) connected))
   \<and> scheduled_delays (effects (fst (run cfg_with_key
         (Socket_message (Inr (Auth_invalid ''bad token'')) # after_auth_invalid) connected))) = []
   \<and> connection_attempts (effects (fst (run cfg_with_key
         (Socket_message (Inr (Auth_invalid ''bad token'')) # after_auth_invalid) connected)))
       = [''ws://ha.local:8123/api/websocket'']"
proof -
  have a: "list_all (\<lambda>i. \<not> is_Start i) after_auth_invalid"
    by (simp add: after_auth_invalid_def)
  from auth_invalid_is_final [OF a, of cfg_with_key "''bad token''" connected] a
  show ?thesis
    by (simp add: connected_evaluated)
qed

end
